theory Spec2Isabelle
  imports Main Complex_Main "HOL-Library.AList" "HOL-Library.Multiset" "HOL-Library.Sublist"
begin

section \<open>KoalaqVision: matching, registration and vector-store consistency\<close>

text \<open>
  A shallow embedding of the matching and registration services of KoalaqVision
  (\<^verbatim>\<open>app/services\<close>, \<^verbatim>\<open>app/database\<close>).
  Python floats are modelled by rationals (\<open>rat\<close>): comparisons and the arithmetic
  of the source are exact here, NaN and infinities appear only where the source tests
  for them. The neural networks and the vector engine are collaborators: what they
  return is an input of the model.
\<close>

subsection \<open>Python helpers\<close>

text \<open>The exceptions the modelled code raises or catches.\<close>

datatype error =
    ZeroDivisionError
  | RuntimeError string
  | ValueError string
  | InvalidFeatureVector
  | InvalidVectorValue nat
  | DimensionMismatch nat nat
  | EngineError
  | RecursionError
  | IOError
  | CvError

text \<open>\<^verbatim>\<open>int(x)\<close> on a float truncates towards zero.\<close>

definition py_int :: "rat \<Rightarrow> int" where
  "py_int x = (if 0 \<le> x then \<lfloor>x\<rfloor> else \<lceil>x\<rceil>)"

text \<open>
  \<^verbatim>\<open>xs[:k]\<close>: a non-negative \<open>k\<close> keeps the first \<open>k\<close> elements, a negative
  \<open>k\<close> drops the last \<open>-k\<close>.
\<close>

definition py_slice_to :: "'a list \<Rightarrow> int \<Rightarrow> 'a list" where
  "py_slice_to xs k =
     (if 0 \<le> k then take (nat k) xs else take (length xs - nat (- k)) xs)"

text \<open>
  The number of indices selected by \<^verbatim>\<open>a[start:stop]\<close> on an axis of length \<open>n\<close>
  (negative bounds count from the end, both are clamped to the axis).
\<close>

definition py_slice_len :: "int \<Rightarrow> int \<Rightarrow> int \<Rightarrow> int" where
  "py_slice_len n start stop =
     (let s = (if start < 0 then max 0 (start + n) else min start n);
          e = (if stop < 0 then max 0 (stop + n) else min stop n)
      in max 0 (e - s))"

text \<open>
  \<^verbatim>\<open>round(x, 2)\<close>: rounding to two decimals, ties to the even neighbour.
\<close>

definition round_half_even :: "rat \<Rightarrow> int" where
  "round_half_even x =
     (let f = \<lfloor>x\<rfloor>; d = x - of_int f
      in if d < 1 / 2 then f
         else if 1 / 2 < d then f + 1
         else if even f then f else f + 1)"

definition round2 :: "rat \<Rightarrow> rat" where
  "round2 x = of_int (round_half_even (x * 100)) / 100"

subsection \<open>Liveness classifier (\<^verbatim>\<open>minifasnet_liveness.py\<close>)\<close>

text \<open>
  \<^verbatim>\<open>MiniFASNetLiveness._get_new_box\<close>. The bounding box is \<open>[x, y, w, h]\<close> in integers
  (as \<^verbatim>\<open>FacePipeline.preprocess\<close> builds it), the scale is a float. The two
  divisions raise on a zero width or height.
\<close>

definition get_new_box ::
  "int \<Rightarrow> int \<Rightarrow> int \<times> int \<times> int \<times> int \<Rightarrow> rat \<Rightarrow> error + (int \<times> int \<times> int \<times> int)" where
  "get_new_box src_w src_h bbox scale0 =
     (case bbox of (x, y, box_w, box_h) \<Rightarrow>
        if box_h = 0 \<or> box_w = 0 then Inl ZeroDivisionError
        else
          let scale = min (of_int (src_h - 1) / of_int box_h)
                          (min (of_int (src_w - 1) / of_int box_w) scale0);
              new_width = of_int box_w * scale;
              new_height = of_int box_h * scale;
              center_x = of_int box_w / 2 + of_int x;
              center_y = of_int box_h / 2 + of_int y;
              left_top_x = center_x - new_width / 2;
              left_top_y = center_y - new_height / 2;
              right_bottom_x = center_x + new_width / 2;
              right_bottom_y = center_y + new_height / 2;
              right_bottom_x1 = (if left_top_x < 0 then right_bottom_x - left_top_x else right_bottom_x);
              left_top_x1 = (if left_top_x < 0 then 0 else left_top_x);
              right_bottom_y1 = (if left_top_y < 0 then right_bottom_y - left_top_y else right_bottom_y);
              left_top_y1 = (if left_top_y < 0 then 0 else left_top_y);
              left_top_x2 = (if right_bottom_x1 > of_int (src_w - 1)
                             then left_top_x1 - (right_bottom_x1 - of_int src_w + 1) else left_top_x1);
              right_bottom_x2 = (if right_bottom_x1 > of_int (src_w - 1)
                                 then of_int (src_w - 1) else right_bottom_x1);
              left_top_y2 = (if right_bottom_y1 > of_int (src_h - 1)
                             then left_top_y1 - (right_bottom_y1 - of_int src_h + 1) else left_top_y1);
              right_bottom_y2 = (if right_bottom_y1 > of_int (src_h - 1)
                                 then of_int (src_h - 1) else right_bottom_y1)
          in Inr (py_int left_top_x2, py_int left_top_y2,
                  py_int right_bottom_x2, py_int right_bottom_y2))"

text \<open>
  The crop of \<^verbatim>\<open>_preprocess_face\<close>:
  \<^verbatim>\<open>img_bgr[left_top_y:right_bottom_y+1, left_top_x:right_bottom_x+1]\<close>;
  the model returns the shape (rows, columns) of the cropped region.
\<close>

definition preprocess_face_crop_shape ::
  "int \<Rightarrow> int \<Rightarrow> int \<times> int \<times> int \<times> int \<Rightarrow> rat \<Rightarrow> error + (int \<times> int)" where
  "preprocess_face_crop_shape src_w src_h bbox scale =
     (case get_new_box src_w src_h bbox scale of
        Inl e \<Rightarrow> Inl e
      | Inr (left_top_x, left_top_y, right_bottom_x, right_bottom_y) \<Rightarrow>
          Inr (py_slice_len src_h left_top_y (right_bottom_y + 1),
               py_slice_len src_w left_top_x (right_bottom_x + 1)))"

text \<open>
  An image is known to the model by its size and an opaque content handle.
\<close>

record image =
  img_width :: int
  img_height :: int
  img_content :: nat

text \<open>
  \<^verbatim>\<open>_preprocess_face\<close>: the crop box, or the error of \<^verbatim>\<open>cv2.resize\<close> on an
  empty crop.
\<close>

definition preprocess_face ::
  "image \<Rightarrow> int \<times> int \<times> int \<times> int \<Rightarrow> rat \<Rightarrow> error + (int \<times> int \<times> int \<times> int)" where
  "preprocess_face img bbox scale =
     (case get_new_box (img_width img) (img_height img) bbox scale of
        Inl e \<Rightarrow> Inl e
      | Inr box \<Rightarrow>
          (case preprocess_face_crop_shape (img_width img) (img_height img) bbox scale of
             Inl e \<Rightarrow> Inl e
           | Inr (rows, cols) \<Rightarrow> if rows = 0 \<or> cols = 0 then Inl CvError else Inr box))"

text \<open>
  A loaded model: the crop scale parsed from its file name and the network, which maps
  the image and the crop box to its softmax output (paper, real, screen).
\<close>

record session =
  sess_scale :: rat
  sess_run :: "image \<Rightarrow> int \<times> int \<times> int \<times> int \<Rightarrow> rat \<times> rat \<times> rat"

text \<open>The accumulation loop of \<^verbatim>\<open>predict\<close> over \<^verbatim>\<open>self.sessions\<close>.\<close>

fun ensemble_sum ::
  "session list \<Rightarrow> image \<Rightarrow> int \<times> int \<times> int \<times> int \<Rightarrow> rat \<times> rat \<times> rat
     \<Rightarrow> error + (rat \<times> rat \<times> rat)" where
  "ensemble_sum [] img bbox acc = Inr acc"
| "ensemble_sum (s # ss) img bbox acc =
     (case preprocess_face img bbox (sess_scale s) of
        Inl e \<Rightarrow> Inl e
      | Inr box \<Rightarrow>
          (case (sess_run s img box, acc) of
             ((o0, o1, o2), (a0, a1, a2)) \<Rightarrow>
               ensemble_sum ss img bbox (a0 + o0, a1 + o1, a2 + o2)))"

record liveness_details =
  real_score :: rat
  paper_score :: rat
  screen_score :: rat
  label :: nat
  num_models :: nat

datatype reject_reason =
    RealScoreTooLow rat rat
  | PaperScoreTooHigh rat rat
  | ScreenScoreTooHigh rat rat

record liveness_verdict = liveness_details +
  threshold :: rat
  paper_reject_threshold :: rat
  screen_reject_threshold :: rat
  passed :: bool
  reject_reason :: "reject_reason option"

text \<open>\<^verbatim>\<open>np.argmax\<close> returns the first maximal index.\<close>

definition argmax3 :: "rat \<times> rat \<times> rat \<Rightarrow> nat" where
  "argmax3 s = (case s of (s0, s1, s2) \<Rightarrow>
     if s0 \<ge> s1 \<and> s0 \<ge> s2 then 0 else if s1 \<ge> s2 then 1 else 2)"

text \<open>\<^verbatim>\<open>MiniFASNetLiveness.predict\<close>.\<close>

definition predict ::
  "session list \<Rightarrow> image \<Rightarrow> int \<times> int \<times> int \<times> int
     \<Rightarrow> error + (bool \<times> rat \<times> liveness_details)" where
  "predict sessions img bbox =
     (if sessions = [] then Inl (RuntimeError ''No models loaded'')
      else case ensemble_sum sessions img bbox (0, 0, 0) of
        Inl e \<Rightarrow> Inl e
      | Inr (t0, t1, t2) \<Rightarrow>
        let n = of_nat (length sessions);
            s0 = t0 / n; s1 = t1 / n; s2 = t2 / n;
            lbl = argmax3 (s0, s1, s2);
            rl = s1;
            fake = s0 + s2;
            total = rl + fake;
            real_score_normalized = (if total > 0 then rl / total else 1 / 2);
            is_real = (lbl = 1);
            details = \<lparr>real_score = s1, paper_score = s0, screen_score = s2,
                       label = lbl, num_models = length sessions\<rparr>
        in Inr (is_real, real_score_normalized, details))"

text \<open>\<^verbatim>\<open>MiniFASNetLiveness.predict_with_threshold\<close>.\<close>

definition predict_with_threshold ::
  "session list \<Rightarrow> image \<Rightarrow> int \<times> int \<times> int \<times> int \<Rightarrow> rat \<Rightarrow> rat \<Rightarrow> rat
     \<Rightarrow> error + (bool \<times> rat \<times> liveness_verdict)" where
  "predict_with_threshold sessions img bbox thr paper_thr screen_thr =
     (case predict sessions img bbox of
        Inl e \<Rightarrow> Inl e
      | Inr (is_real_label, score, details) \<Rightarrow>
          let rl = real_score details;
              paper = paper_score details;
              screen = screen_score details;
              is_real = (rl > thr \<and> paper < paper_thr \<and> screen < screen_thr);
              reason =
                (if \<not> is_real then
                   (if rl \<le> thr then Some (RealScoreTooLow rl thr)
                    else if paper \<ge> paper_thr then Some (PaperScoreTooHigh paper paper_thr)
                    else if screen \<ge> screen_thr then Some (ScreenScoreTooHigh screen screen_thr)
                    else None)
                 else None)
          in Inr (is_real, score,
                  liveness_details.extend details
                    \<lparr>threshold = thr, paper_reject_threshold = paper_thr,
                     screen_reject_threshold = screen_thr, passed = is_real,
                     reject_reason = reason\<rparr>))"

subsection \<open>Face pipeline (\<^verbatim>\<open>face_pipeline.py\<close>)\<close>

text \<open>
  A detected face: \<open>bbox\<close> is \<open>(x1, y1, x2, y2)\<close>; \<open>normed_embedding\<close> is absent
  when reading it raises.
\<close>

datatype fval = Num rat | NaN | Inf | NoneVal

record face =
  bbox :: "rat \<times> rat \<times> rat \<times> rat"
  det_score :: rat
  kps :: "(rat \<times> rat) list"
  normed_embedding :: "fval list option"

record liveness_info =
  lv_is_real :: bool
  lv_score :: rat
  lv_passed :: bool
  lv_details :: liveness_verdict

record preprocess_result =
  pr_face :: face
  pr_liveness :: "liveness_info option"

text \<open>
  The pipeline object together with the settings it reads. A detector maps an image to
  its candidate faces, or raises.
\<close>

record face_pipeline =
  app :: "(image \<Rightarrow> error + face list) option"
  app_fallback :: "(image \<Rightarrow> error + face list) option"
  det_size :: "nat \<times> nat"
  det_size_fallback :: "nat \<times> nat"
  liveness_detector :: "session list option"
  settings_enable_liveness :: bool
  settings_liveness_threshold :: rat
  settings_liveness_paper_reject_threshold :: rat
  settings_liveness_screen_reject_threshold :: rat

datatype log_event =
    FaceDetectedAt "nat \<times> nat"
  | DetectionFailed "(nat \<times> nat) list"
  | LogError string

text \<open>
  The detection block of \<^verbatim>\<open>FacePipeline.preprocess\<close> (primary detector, then the
  fallback when no face was found and a fallback detector is loaded): the faces and
  \<^verbatim>\<open>used_size\<close>.
\<close>

definition detect_multi_scale ::
  "face_pipeline \<Rightarrow> (image \<Rightarrow> error + face list) \<Rightarrow> image
     \<Rightarrow> error + (face list \<times> (nat \<times> nat))" where
  "detect_multi_scale p primary img =
     (case primary img of
        Inl e \<Rightarrow> Inl e
      | Inr faces \<Rightarrow>
          (case app_fallback p of
             Some fallback \<Rightarrow>
               if length faces = 0 then
                 (case fallback img of
                    Inl e \<Rightarrow> Inl e
                  | Inr faces' \<Rightarrow> Inr (faces', det_size_fallback p))
               else Inr (faces, det_size p)
           | None \<Rightarrow> Inr (faces, det_size p)))"

text \<open>
  The conversion of the detector's box \<open>[x1, y1, x2, y2]\<close> to \<open>[x, y, w, h]\<close> before
  the liveness check.
\<close>

definition liveness_bbox :: "face \<Rightarrow> int \<times> int \<times> int \<times> int" where
  "liveness_bbox f =
     (case bbox f of (x1, y1, x2, y2) \<Rightarrow> (py_int x1, py_int y1, py_int (x2 - x1), py_int (y2 - y1)))"

text \<open>
  \<^verbatim>\<open>FacePipeline.preprocess\<close>: the returned dictionary (or \<^verbatim>\<open>None\<close>) and the
  detection events it logs. Every exception inside is caught and turned into
  \<^verbatim>\<open>None\<close>.
\<close>

definition preprocess ::
  "face_pipeline \<Rightarrow> image option \<Rightarrow> bool option \<Rightarrow> preprocess_result option \<times> log_event list" where
  "preprocess p image_in enable_liveness =
     (case app p of
        None \<Rightarrow> (None, [LogError ''InsightFace model not loaded''])
      | Some primary \<Rightarrow>
        (case image_in of
           None \<Rightarrow> (None, [LogError ''Input image is None''])
         | Some img \<Rightarrow>
           if img_width img * img_height img = 0
           then (None, [LogError ''Image array is empty after conversion from PIL''])
           else
             (case detect_multi_scale p primary img of
                Inl e \<Rightarrow> (None, [LogError ''Error in face preprocessing''])
              | Inr ([], used_size) \<Rightarrow>
                  (None, [DetectionFailed
                            (det_size p # (if app_fallback p \<noteq> None then [det_size_fallback p] else []))])
              | Inr (f # fs, used_size) \<Rightarrow>
                  let should_do_liveness =
                        (case enable_liveness of Some b \<Rightarrow> b | None \<Rightarrow> settings_enable_liveness p)
                  in
                  (case liveness_detector p of
                     Some sessions \<Rightarrow>
                       if should_do_liveness \<and> settings_enable_liveness p then
                         (case predict_with_threshold sessions img (liveness_bbox f)
                                    (settings_liveness_threshold p)
                                    (settings_liveness_paper_reject_threshold p)
                                    (settings_liveness_screen_reject_threshold p) of
                               Inl e \<Rightarrow>
                                 (None, [FaceDetectedAt used_size, LogError ''Error in face preprocessing''])
                             | Inr (is_real, score, details) \<Rightarrow>
                                 (Some \<lparr>pr_face = f,
                                        pr_liveness = Some \<lparr>lv_is_real = is_real, lv_score = score,
                                                            lv_passed = passed details,
                                                            lv_details = details\<rparr>\<rparr>,
                                  [FaceDetectedAt used_size]))
                       else (Some \<lparr>pr_face = f, pr_liveness = None\<rparr>, [FaceDetectedAt used_size])
                   | None \<Rightarrow> (Some \<lparr>pr_face = f, pr_liveness = None\<rparr>, [FaceDetectedAt used_size])))))"


subsection \<open>The state of the vector store\<close>

text \<open>
  What \<^verbatim>\<open>VectorService.add_image\<close> receives (\<^verbatim>\<open>ObjectData\<close> or \<^verbatim>\<open>FaceData\<close>;
  the entity id is \<^verbatim>\<open>object_id\<close> or \<^verbatim>\<open>person_id\<close>), and a stored object.
\<close>

type_synonym custom = "(string \<times> string) list"

record image_data =
  d_image_id :: string
  d_entity_id :: string
  d_img_url :: "string option"
  d_img_object_url :: "string option"
  d_feature_vector :: "fval list"
  d_custom_data :: custom
  d_face_bbox :: "rat list option"
  d_face_score :: "rat option"

record db_record =
  r_image_id :: string
  r_object_id :: string
  r_img_url :: string
  r_img_object_url :: string
  r_custom_data :: custom
  r_face_bbox :: "rat list option"
  r_face_score :: "rat option"
  r_vector :: "fval list"

text \<open>
  The state the services act on: the collection of the vector engine for the active
  mode (absent until it is created); whether a client is held (the vector service takes
  its client from the wrapper \<^verbatim>\<open>weaviate_client\<close> at its first call, one flag
  stands for both); whether the wrapper's \<^verbatim>\<open>collection_name\<close> has been set; whether
  the singleton \<^verbatim>\<open>object_pipeline_pytorch\<close> has been built; whether the engine
  answers client calls and the REST probe; whether the installed client library still
  offers the legacy client; whether the PyTorch model directories load;
  the files on disk (with those whose unlink fails); whether the disk accepts writes;
  and the persisted snapshot of the model configuration.
\<close>

datatype config_file = Missing | Corrupt | Snapshot "(string \<times> custom) list"

record system =
  collection :: "db_record list option"
  connected :: bool
  collection_name_set :: bool
  pipeline_built :: bool
  engine_ok :: bool
  rest_ok :: bool
  legacy_ok :: bool
  models_ok :: bool
  files :: "string list"
  locked :: "string list"
  disk_ok :: bool
  config_file :: config_file

subsection \<open>Model-change reconciliation and the engine connection
  (\<^verbatim>\<open>model_change_detector.py\<close>, \<^verbatim>\<open>weaviate_client.py\<close>, \<^verbatim>\<open>pipeline_factory.py\<close>)\<close>

record settings =
  app_mode :: string
  object_backend :: string
  pytorch_dinov3_path :: string
  pytorch_birefnet_path :: string
  dinov3_model_path :: string
  dinov3_model :: string
  bg_removal_model :: string
  face_model_name :: string

text \<open>
  \<^verbatim>\<open>Settings.get_dinov3_model_path\<close>: the custom path when it is set, else the preset
  named by \<^verbatim>\<open>dinov3_model\<close>, else the default.
\<close>

definition DINOV3_MODEL_MAPPING :: "(string \<times> string) list" where
  "DINOV3_MODEL_MAPPING =
     [(''vits16'', ''data/models/dinov3-vits16/model.onnx''),
      (''vitl16'', ''data/models/dinov3-vitl16/model_q4.onnx'')]"

definition get_dinov3_model_path :: "settings \<Rightarrow> string" where
  "get_dinov3_model_path s =
     (if dinov3_model_path s \<noteq> [] then dinov3_model_path s
      else case (if dinov3_model s \<noteq> [] then map_of DINOV3_MODEL_MAPPING (dinov3_model s)
                 else None) of
             Some path \<Rightarrow> path
           | None \<Rightarrow> ''data/models/dinov3-vitl16/model_q4.onnx'')"

text \<open>
  A JSON object is an association list with distinct keys; two of them are equal as
  dictionaries when they map the same keys to the same values.
\<close>

definition dict_eq :: "custom \<Rightarrow> custom \<Rightarrow> bool" where
  "dict_eq a b =
     (list_all (\<lambda>(k, v). map_of b k = Some v) a \<and> list_all (\<lambda>(k, v). map_of a k = Some v) b)"

text \<open>\<^verbatim>\<open>ModelChangeDetector.get_current_model_config\<close>.\<close>

definition get_current_model_config :: "settings \<Rightarrow> custom" where
  "get_current_model_config s =
     (if app_mode s = ''object'' then
        (if object_backend s = ''pytorch''
         then [(''backend'', ''pytorch''), (''dinov3_path'', pytorch_dinov3_path s),
               (''birefnet_path'', pytorch_birefnet_path s)]
         else [(''backend'', ''onnx''), (''dinov3_path'', get_dinov3_model_path s),
               (''bg_removal_model'', bg_removal_model s)])
      else if app_mode s = ''face''
      then [(''backend'', ''insightface''), (''model_name'', face_model_name s)]
      else [])"

text \<open>Reading the snapshot file: a missing or unreadable file reads as the empty dictionary.\<close>

definition read_config :: "system \<Rightarrow> (string \<times> custom) list" where
  "read_config st = (case config_file st of Snapshot c \<Rightarrow> c | _ \<Rightarrow> [])"

definition old_mode_config :: "settings \<Rightarrow> system \<Rightarrow> custom" where
  "old_mode_config s st =
     (case map_of (read_config st) (app_mode s) of None \<Rightarrow> [] | Some c \<Rightarrow> c)"

text \<open>\<^verbatim>\<open>ModelChangeDetector.check_model_change\<close> (the flag \<^verbatim>\<open>need_reset\<close>).\<close>

definition check_model_change :: "settings \<Rightarrow> system \<Rightarrow> bool" where
  "check_model_change s st =
     (old_mode_config s st \<noteq> [] \<and> \<not> dict_eq (old_mode_config s st) (get_current_model_config s))"

text \<open>\<^verbatim>\<open>ModelChangeDetector.save_current_config\<close>; a failed write is only logged.\<close>

definition save_current_config :: "settings \<Rightarrow> system \<Rightarrow> system" where
  "save_current_config s st =
     (let old_config = read_config st;
          new_config = filter (\<lambda>(k, v). k = ''object'' \<or> k = ''face'') old_config;
          new_config' = AList.update (app_mode s) (get_current_model_config s) new_config
      in if disk_ok st then st\<lparr>config_file := Snapshot new_config'\<rparr> else st)"

text \<open>
  \<^verbatim>\<open>WeaviateClient.setup_collection\<close> and \<^verbatim>\<open>setup_collection_legacy\<close>: create the
  collection when it is absent; every exception is swallowed, also the one of a call
  made while \<^verbatim>\<open>collection_name\<close> is still \<^verbatim>\<open>None\<close>.
\<close>

definition setup_collection :: "system \<Rightarrow> system" where
  "setup_collection st =
     (if \<not> engine_ok st \<or> \<not> collection_name_set st then st
      else case collection st of None \<Rightarrow> st\<lparr>collection := Some []\<rparr> | Some rs \<Rightarrow> st)"

text \<open>
  \<^verbatim>\<open>WeaviateClient.connect\<close> starts with \<^verbatim>\<open>get_pipeline()\<close>. For the object mode
  with the PyTorch backend and no singleton yet, that call constructs
  \<^verbatim>\<open>ObjectPipelinePyTorch\<close>, whose \<^verbatim>\<open>__init__\<close> runs \<^verbatim>\<open>load_models\<close> and with it a
  nested \<^verbatim>\<open>reset_collection_if_needed\<close>, which may call \<^verbatim>\<open>connect\<close> again. The
  functions below take that nested run as their first argument; the recursion is closed
  in \<open>reset_collection_if_needed\<close>.
\<close>

type_synonym nested_reset = "system \<Rightarrow> (error + bool) \<times> system"

text \<open>
  \<^verbatim>\<open>ObjectPipelinePyTorch.load_models\<close>: the reconciliation, then the two model
  directories (\<^verbatim>\<open>FileNotFoundError\<close> when they do not load).
\<close>

definition load_models_pytorch :: "nested_reset \<Rightarrow> system \<Rightarrow> (error + unit) \<times> system" where
  "load_models_pytorch reset st =
     (case reset st of
        (Inl e, st1) \<Rightarrow> (Inl e, st1)
      | (Inr _, st1) \<Rightarrow> if models_ok st1 then (Inr (), st1) else (Inl IOError, st1))"

text \<open>
  \<^verbatim>\<open>get_pipeline\<close>: the ONNX object pipeline and the face pipeline are module-level
  objects whose construction loads nothing; the PyTorch pipeline is built on first use.
\<close>

definition get_pipeline :: "nested_reset \<Rightarrow> settings \<Rightarrow> system \<Rightarrow> (error + unit) \<times> system" where
  "get_pipeline reset s st =
     (if app_mode s = ''object'' then
        (if object_backend s = ''pytorch'' then
           (if pipeline_built st then (Inr (), st)
            else case load_models_pytorch reset st of
                   (Inl e, st1) \<Rightarrow> (Inl e, st1)
                 | (Inr _, st1) \<Rightarrow> (Inr (), st1\<lparr>pipeline_built := True\<rparr>))
         else (Inr (), st))
      else if app_mode s = ''face'' then (Inr (), st)
      else (Inl (ValueError ''Unknown app mode''), st))"

text \<open>
  \<^verbatim>\<open>WeaviateClient.connect\<close>. When the first block raises (the pipeline could not be
  obtained, or the engine does not answer) the legacy client is tried, with the
  collection name as it then stands; that attempt fails, and its exception is raised,
  when the engine does not answer or the library has no legacy client.
\<close>

definition connect :: "nested_reset \<Rightarrow> settings \<Rightarrow> system \<Rightarrow> (error + unit) \<times> system" where
  "connect reset s st =
     (case get_pipeline reset s st of
        (Inr _, st1) \<Rightarrow>
          let st2 = st1\<lparr>collection_name_set := True\<rparr>
          in if engine_ok st2 then (Inr (), setup_collection (st2\<lparr>connected := True\<rparr>))
             else (Inl EngineError, st2)
      | (Inl e, st1) \<Rightarrow>
          if engine_ok st1 \<and> legacy_ok st1
          then (Inr (), setup_collection (st1\<lparr>connected := True\<rparr>))
          else (Inl EngineError, st1))"

text \<open>\<^verbatim>\<open>WeaviateClient.get_client\<close>.\<close>

definition get_client :: "nested_reset \<Rightarrow> settings \<Rightarrow> system \<Rightarrow> (error + unit) \<times> system" where
  "get_client reset s st = (if \<not> connected st then connect reset s st else (Inr (), st))"

text \<open>\<^verbatim>\<open>WeaviateClient.delete_collection\<close>: every exception is swallowed.\<close>

definition delete_collection :: "nested_reset \<Rightarrow> settings \<Rightarrow> system \<Rightarrow> bool \<times> system" where
  "delete_collection reset s st =
     (case (if \<not> connected st then connect reset s st else (Inr (), st)) of
        (Inl e, st1) \<Rightarrow> (False, st1)
      | (Inr _, st1) \<Rightarrow>
          if \<not> engine_ok st1 \<or> \<not> collection_name_set st1 then (False, st1)
          else (case collection st1 of
                  Some rs \<Rightarrow> (True, st1\<lparr>collection := None\<rparr>)
                | None \<Rightarrow> (False, st1)))"

text \<open>
  The body of \<^verbatim>\<open>ModelChangeDetector.reset_collection_if_needed\<close>, and the method
  itself: \<open>depth\<close> is the number of nested runs the interpreter's stack still admits;
  with none left the call raises \<^verbatim>\<open>RecursionError\<close>.
\<close>

definition reset_collection_body ::
  "nested_reset \<Rightarrow> settings \<Rightarrow> system \<Rightarrow> (error + bool) \<times> system" where
  "reset_collection_body reset s st =
     (if check_model_change s st then
        (case (if \<not> connected st then connect reset s st else (Inr (), st)) of
           (Inl e, st1) \<Rightarrow> (Inl e, st1)
         | (Inr _, st1) \<Rightarrow>
             (case delete_collection reset s st1 of
                (True, st2) \<Rightarrow> (Inr True, save_current_config s (setup_collection st2))
              | (False, st2) \<Rightarrow> (Inr True, save_current_config s st2)))
      else (Inr False, save_current_config s st))"

primrec reset_collection_if_needed ::
  "nat \<Rightarrow> settings \<Rightarrow> system \<Rightarrow> (error + bool) \<times> system" where
  "reset_collection_if_needed 0 s = (\<lambda>st. (Inl RecursionError, st))"
| "reset_collection_if_needed (Suc depth) s =
     reset_collection_body (reset_collection_if_needed depth s) s"

subsection \<open>Vector service (\<^verbatim>\<open>vector_service.py\<close>)\<close>

text \<open>
  \<^verbatim>\<open>VectorService.initialize\<close>: take the wrapper's client, connecting when there is
  none; a failure is raised again.
\<close>

definition initialize :: "nat \<Rightarrow> settings \<Rightarrow> system \<Rightarrow> (error + unit) \<times> system" where
  "initialize depth s st = get_client (reset_collection_if_needed depth s) s st"

text \<open>\<^verbatim>\<open>WeaviateClient.get_vector_dimension\<close>: sample one stored object.\<close>

definition get_vector_dimension :: "system \<Rightarrow> nat option" where
  "get_vector_dimension st =
     (if \<not> rest_ok st then None
      else case collection st of
             None \<Rightarrow> None
           | Some [] \<Rightarrow> None
           | Some (r # rs) \<Rightarrow> Some (length (r_vector r)))"

text \<open>The first index of the validation loop whose value is rejected.\<close>

fun first_invalid :: "nat \<Rightarrow> fval list \<Rightarrow> nat option" where
  "first_invalid i [] = None"
| "first_invalid i (Num x # vs) = first_invalid (Suc i) vs"
| "first_invalid i (v # vs) = Some i"

definition data_object :: "image_data \<Rightarrow> db_record" where
  "data_object d =
     \<lparr>r_image_id = d_image_id d,
      r_object_id = d_entity_id d,
      r_img_url = (case d_img_url d of None \<Rightarrow> [] | Some u \<Rightarrow> u),
      r_img_object_url = (case d_img_object_url d of None \<Rightarrow> [] | Some u \<Rightarrow> u),
      r_custom_data = d_custom_data d,
      r_face_bbox = d_face_bbox d,
      r_face_score = d_face_score d,
      r_vector = d_feature_vector d\<rparr>"

text \<open>
  The last step of \<^verbatim>\<open>VectorService.add_image\<close>: the insert call of the client (v4 or
  legacy), whose exception is raised again.
\<close>

definition insert_object :: "system \<Rightarrow> image_data \<Rightarrow> (error + string) \<times> system" where
  "insert_object st d =
     (if \<not> engine_ok st \<or> \<not> collection_name_set st then (Inl EngineError, st)
      else case collection st of
             None \<Rightarrow> (Inl EngineError, st)
           | Some rs \<Rightarrow> (Inr (d_image_id d), st\<lparr>collection := Some (rs @ [data_object d])\<rparr>))"

text \<open>\<^verbatim>\<open>VectorService.add_image\<close>.\<close>

definition vs_add_image ::
  "nat \<Rightarrow> settings \<Rightarrow> system \<Rightarrow> image_data \<Rightarrow> (error + string) \<times> system" where
  "vs_add_image depth s st d =
     (case (if \<not> connected st then initialize depth s st else (Inr (), st)) of
        (Inl e, st0) \<Rightarrow> (Inl e, st0)
      | (Inr _, st0) \<Rightarrow>
          if d_feature_vector d = [] then (Inl InvalidFeatureVector, st0)
          else case first_invalid 0 (d_feature_vector d) of
            Some i \<Rightarrow> (Inl (InvalidVectorValue i), st0)
          | None \<Rightarrow>
             let current_vector_dim = length (d_feature_vector d)
             in case get_vector_dimension st0 of
                  Some db_vector_dim \<Rightarrow>
                    if db_vector_dim \<noteq> current_vector_dim
                    then (Inl (DimensionMismatch db_vector_dim current_vector_dim), st0)
                    else insert_object st0 d
                | None \<Rightarrow> insert_object st0 d)"







subsection \<open>Similarity search (\<^verbatim>\<open>VectorService.search_similar\<close>)\<close>

text \<open>
  A candidate as the engine returns it: its properties and the engine's score, a
  certainty for the legacy client and a cosine distance for the v4 client.
\<close>

record engine_item =
  it_image_id :: string
  it_object_id :: string
  it_img_url :: string
  it_img_object_url :: string
  it_custom_data :: custom
  it_score :: "rat option"

record search_response =
  image_id :: string
  object_id :: string
  similarity :: rat
  img_url :: "string option"
  img_object_url :: "string option"
  custom_data :: custom

datatype client_kind = Legacy | V4 | UnknownClient

definition item_similarity :: "client_kind \<Rightarrow> engine_item \<Rightarrow> rat" where
  "item_similarity kind item =
     (case kind of
        Legacy \<Rightarrow> (case it_score item of None \<Rightarrow> 0 | Some certainty \<Rightarrow> certainty)
      | _ \<Rightarrow> (let distance = (case it_score item of None \<Rightarrow> 2 | Some d \<Rightarrow> d)
              in 1 - distance / 2))"

definition or_none :: "string \<Rightarrow> string option" where
  "or_none s = (if s = [] then None else Some s)"

definition to_response :: "client_kind \<Rightarrow> engine_item \<Rightarrow> search_response" where
  "to_response kind item =
     \<lparr>image_id = it_image_id item,
      object_id = it_object_id item,
      similarity = item_similarity kind item,
      img_url = or_none (it_img_url item),
      img_object_url = or_none (it_img_object_url item),
      custom_data = it_custom_data item\<rparr>"

text \<open>
  The engine answers a near-vector query for a fixed query vector: given the limit and
  the optional \<^verbatim>\<open>object_id\<close> filter it returns its candidates. An empty filter
  string is no filter.
\<close>

type_synonym engine = "int \<Rightarrow> string option \<Rightarrow> engine_item list"

definition search_similar ::
  "client_kind \<Rightarrow> engine \<Rightarrow> int \<Rightarrow> rat \<Rightarrow> string option \<Rightarrow> error + search_response list" where
  "search_similar kind eng top_k thr filter_object_id =
     (if kind = UnknownClient then Inl (RuntimeError ''Unknown Weaviate client type'')
      else
        let query_limit = min (top_k * 3) 100;
            flt = (case filter_object_id of None \<Rightarrow> None
                   | Some f \<Rightarrow> if f = [] then None else Some f);
            items = eng query_limit flt;
            responses = map (to_response kind)
                          (filter (\<lambda>item. \<not> item_similarity kind item < thr) items)
        in Inr (py_slice_to responses top_k))"

subsection \<open>Grouping and ranking (\<^verbatim>\<open>match_image\<close>, \<^verbatim>\<open>match_face\<close>)\<close>

record object_image =
  m_image_id :: string
  m_similarity :: rat
  m_img_url :: "string option"
  m_img_object_url :: "string option"
  m_custom_data :: custom

record face_image = object_image +
  m_face_bbox :: "string option"
  m_face_score :: "string option"

definition object_member :: "search_response \<Rightarrow> object_image" where
  "object_member r =
     \<lparr>m_image_id = image_id r, m_similarity = round2 (similarity r),
      m_img_url = img_url r, m_img_object_url = img_object_url r,
      m_custom_data = custom_data r\<rparr>"

definition face_member :: "search_response \<Rightarrow> face_image" where
  "face_member r =
     \<lparr>m_image_id = image_id r, m_similarity = round2 (similarity r),
      m_img_url = img_url r, m_img_object_url = img_object_url r,
      m_custom_data = custom_data r,
      m_face_bbox = map_of (custom_data r) ''face_bbox'',
      m_face_score = map_of (custom_data r) ''face_score''\<rparr>"

record 'm group =
  entity_id :: string
  members :: "'m list"
  max_similarity :: rat

text \<open>
  One iteration of the grouping loop. The dictionary \<^verbatim>\<open>grouped_results\<close> keeps
  insertion order, so it is an association list; a new key is appended.
\<close>

definition group_step ::
  "(search_response \<Rightarrow> 'm) \<Rightarrow> (string \<times> 'm group) list \<Rightarrow> search_response
     \<Rightarrow> (string \<times> 'm group) list" where
  "group_step mk g r =
     (let k = object_id r;
          g1 = (if map_of g k = None
                then g @ [(k, \<lparr>entity_id = k, members = [], max_similarity = 0\<rparr>)] else g);
          g2 = AList.map_entry k (\<lambda>gr. gr\<lparr>members := members gr @ [mk r]\<rparr>) g1
      in AList.map_entry k
           (\<lambda>gr. if similarity r > max_similarity gr
                 then gr\<lparr>max_similarity := round2 (similarity r)\<rparr> else gr) g2)"

fun group_loop ::
  "(search_response \<Rightarrow> 'm) \<Rightarrow> (string \<times> 'm group) list \<Rightarrow> search_response list
     \<Rightarrow> (string \<times> 'm group) list" where
  "group_loop mk g [] = g"
| "group_loop mk g (r # rs) = group_loop mk (group_step mk g r) rs"

definition grouped_results ::
  "(search_response \<Rightarrow> 'm) \<Rightarrow> search_response list \<Rightarrow> (string \<times> 'm group) list" where
  "grouped_results mk all_results = group_loop mk [] all_results"





subsection \<open>Registration (\<^verbatim>\<open>ObjectService.add_image\<close>, \<^verbatim>\<open>FaceService.add_face\<close>)\<close>

datatype image_source = FromUrl string | FromImage image









subsection \<open>Auxiliary notions for the proofs\<close>

text \<open>
  The two coordinates that \<open>get_new_box\<close> computes on one axis, for a centre \<open>c\<close>, an
  extent \<open>nw\<close>, the image size \<open>sz\<close> on that axis and the last pixel index \<open>bound\<close>.
\<close>

definition axis_lo :: "rat \<Rightarrow> rat \<Rightarrow> rat \<Rightarrow> rat \<Rightarrow> rat" where
  "axis_lo c nw sz bound =
     (let l0 = c - nw / 2; r0 = c + nw / 2;
          r1 = (if l0 < 0 then r0 - l0 else r0);
          l1 = (if l0 < 0 then 0 else l0)
      in if r1 > bound then l1 - (r1 - sz + 1) else l1)"

definition axis_hi :: "rat \<Rightarrow> rat \<Rightarrow> rat \<Rightarrow> rat" where
  "axis_hi c nw bound =
     (let l0 = c - nw / 2; r0 = c + nw / 2;
          r1 = (if l0 < 0 then r0 - l0 else r0)
      in if r1 > bound then bound else r1)"

text \<open>
  The invariant of the grouping loop after the results \<open>ps\<close> have been processed: the
  keys are distinct and are the entity ids seen so far, and each group holds the members
  of its entity in order and the rounded running maximum, started at zero.
\<close>

definition group_inv ::
  "(search_response \<Rightarrow> 'm) \<Rightarrow> (string \<times> 'm group) list \<Rightarrow> search_response list \<Rightarrow> bool" where
  "group_inv mk g ps \<longleftrightarrow>
     distinct (map fst g) \<and> set (map fst g) = object_id ` set ps
     \<and> (\<forall>k gr. map_of g k = Some gr \<longrightarrow>
           entity_id gr = k
           \<and> members gr = map mk (filter (\<lambda>r. object_id r = k) ps)
           \<and> max_similarity gr =
               round2 (fold max (map similarity (filter (\<lambda>r. object_id r = k) ps)) 0))"

text \<open>
  Two states with the same environment: the engine answers in both or in neither, and
  likewise for the legacy client, the loading of the model directories and writes to
  the disk.
\<close>

definition same_env :: "system \<Rightarrow> system \<Rightarrow> bool" where
  "same_env a b \<longleftrightarrow>
     engine_ok a = engine_ok b \<and> legacy_ok a = legacy_ok b \<and> models_ok a = models_ok b
     \<and> disk_ok a = disk_ok b"

section \<open>Verification\<close>

subsection \<open>Floors and ceilings of rational literals\<close>

lemma floor_rat_divide_numeral [simp]:
  "\<lfloor>numeral a / numeral b :: rat\<rfloor> = numeral a div numeral b"
  by (metis floor_divide_of_int_eq of_int_numeral)

lemma floor_rat_one_divide_numeral [simp]:
  "\<lfloor>1 / numeral b :: rat\<rfloor> = 1 div numeral b"
  by (metis floor_divide_of_int_eq of_int_numeral of_int_1)

lemma floor_rat_minus_divide_numeral [simp]:
  "\<lfloor>- (numeral a / numeral b) :: rat\<rfloor> = - numeral a div numeral b"
  by (metis floor_divide_of_int_eq of_int_numeral of_int_minus minus_divide_left)

lemma ceiling_rat_divide_numeral [simp]:
  "\<lceil>numeral a / numeral b :: rat\<rceil> = - (- numeral a div numeral b)"
  unfolding ceiling_def by (simp only: floor_rat_minus_divide_numeral)

lemma ceiling_rat_minus_divide_numeral [simp]:
  "\<lceil>- (numeral a / numeral b) :: rat\<rceil> = - (numeral a div numeral b)"
  unfolding ceiling_def by (simp only: minus_minus floor_rat_divide_numeral)

subsection \<open>Deleting an unknown image\<close>



subsection \<open>The dimension gate of the insert\<close>

lemma first_invalid_None_iff:
  "first_invalid i vs = None \<longleftrightarrow> (\<forall>v \<in> set vs. \<exists>x. v = Num x)"
  by (induction i vs rule: first_invalid.induct) auto

lemma first_invalid_Some:
  "first_invalid i vs = Some j \<Longrightarrow>
     i \<le> j \<and> j - i < length vs \<and> (\<forall>x. vs ! (j - i) \<noteq> Num x)"
proof (induction i vs rule: first_invalid.induct)
  case (2 i x vs)
  then have ih: "Suc i \<le> j \<and> j - Suc i < length vs \<and> (\<forall>x. vs ! (j - Suc i) \<noteq> Num x)"
    by simp
  then have "j - i = Suc (j - Suc i)" by arith
  with ih show ?case by simp
qed simp_all

lemma insert_object_error_unchanged:
  "insert_object st d = (Inl e, st') \<Longrightarrow> st' = st"
  by (auto simp: insert_object_def split: if_splits option.splits)

text \<open>
  C3, as amended. Take an insert whose service holds a client, or obtains one, and let
  the collection then be non-empty. An empty vector is rejected with the invalid-vector
  error, and so is a vector with an entry that is not a finite number, with the index of
  such an entry. For a non-empty vector of finite numbers, when the dimension probe
  answers: a length different from that of the sampled stored vector raises the
  dimension-mismatch error naming both dimensions; an equal length hands the object to
  the engine, which appends it to the collection when it answers. Every rejected insert
  leaves the state, and so the collection, as it was when the checks began.
\<close>

theorem dimension_gate:
  assumes "(if \<not> connected st then initialize depth s st else (Inr (), st)) = (Inr (), sti)"
    and "collection sti = Some (r # rs)"
  shows "(d_feature_vector d = [] \<longrightarrow>
            vs_add_image depth s st d = (Inl InvalidFeatureVector, sti))
    \<and> ((\<exists>v \<in> set (d_feature_vector d). \<forall>x. v \<noteq> Num x) \<longrightarrow>
         (\<exists>i < length (d_feature_vector d). (\<forall>x. d_feature_vector d ! i \<noteq> Num x)
              \<and> vs_add_image depth s st d = (Inl (InvalidVectorValue i), sti)))
    \<and> (d_feature_vector d \<noteq> [] \<and> (\<forall>v \<in> set (d_feature_vector d). \<exists>x. v = Num x)
          \<and> rest_ok sti \<longrightarrow>
         (length (d_feature_vector d) \<noteq> length (r_vector r) \<longrightarrow>
            vs_add_image depth s st d =
              (Inl (DimensionMismatch (length (r_vector r)) (length (d_feature_vector d))), sti))
         \<and> (length (d_feature_vector d) = length (r_vector r) \<longrightarrow>
              vs_add_image depth s st d = insert_object sti d
              \<and> (engine_ok sti \<and> collection_name_set sti \<longrightarrow>
                   vs_add_image depth s st d =
                     (Inr (d_image_id d),
                      sti\<lparr>collection := Some ((r # rs) @ [data_object d])\<rparr>))))
    \<and> (\<forall>e st'. vs_add_image depth s st d = (Inl e, st') \<longrightarrow> st' = sti)"
proof -
  have v: "vs_add_image depth s st d =
     (if d_feature_vector d = [] then (Inl InvalidFeatureVector, sti)
      else case first_invalid 0 (d_feature_vector d) of
        Some i \<Rightarrow> (Inl (InvalidVectorValue i), sti)
      | None \<Rightarrow>
         (case get_vector_dimension sti of
            Some db_vector_dim \<Rightarrow>
              if db_vector_dim \<noteq> length (d_feature_vector d)
              then (Inl (DimensionMismatch db_vector_dim (length (d_feature_vector d))), sti)
              else insert_object sti d
          | None \<Rightarrow> insert_object sti d))"
    unfolding vs_add_image_def assms(1) Let_def by simp
  have c1: "vs_add_image depth s st d = (Inl InvalidFeatureVector, sti)"
    if "d_feature_vector d = []"
    using that by (simp add: v)
  have c2: "\<exists>i < length (d_feature_vector d). (\<forall>x. d_feature_vector d ! i \<noteq> Num x)
              \<and> vs_add_image depth s st d = (Inl (InvalidVectorValue i), sti)"
    if "\<exists>v \<in> set (d_feature_vector d). \<forall>x. v \<noteq> Num x"
  proof -
    from that have ne: "d_feature_vector d \<noteq> []" by auto
    from that have "first_invalid 0 (d_feature_vector d) \<noteq> None"
      unfolding first_invalid_None_iff by blast
    then obtain i where i: "first_invalid 0 (d_feature_vector d) = Some i" by blast
    from first_invalid_Some[OF i]
    have "i < length (d_feature_vector d)" "\<forall>x. d_feature_vector d ! i \<noteq> Num x" by simp_all
    moreover have "vs_add_image depth s st d = (Inl (InvalidVectorValue i), sti)"
      using ne i by (simp add: v)
    ultimately show ?thesis by blast
  qed
  have c3: "vs_add_image depth s st d =
              (Inl (DimensionMismatch (length (r_vector r)) (length (d_feature_vector d))), sti)"
    if "d_feature_vector d \<noteq> []" "\<forall>v \<in> set (d_feature_vector d). \<exists>x. v = Num x" "rest_ok sti"
      "length (d_feature_vector d) \<noteq> length (r_vector r)"
  proof -
    from that(2) have fi: "first_invalid 0 (d_feature_vector d) = None"
      by (simp add: first_invalid_None_iff)
    from that(3) assms(2) have gd: "get_vector_dimension sti = Some (length (r_vector r))"
      by (simp add: get_vector_dimension_def)
    from that(1,4) show ?thesis by (simp add: v fi gd)
  qed
  have c4: "vs_add_image depth s st d = insert_object sti d"
    if "d_feature_vector d \<noteq> []" "\<forall>v \<in> set (d_feature_vector d). \<exists>x. v = Num x" "rest_ok sti"
      "length (d_feature_vector d) = length (r_vector r)"
  proof -
    from that(2) have fi: "first_invalid 0 (d_feature_vector d) = None"
      by (simp add: first_invalid_None_iff)
    from that(3) assms(2) have gd: "get_vector_dimension sti = Some (length (r_vector r))"
      by (simp add: get_vector_dimension_def)
    from that(1,4) show ?thesis by (simp add: v fi gd)
  qed
  have c5: "insert_object sti d =
              (Inr (d_image_id d), sti\<lparr>collection := Some ((r # rs) @ [data_object d])\<rparr>)"
    if "engine_ok sti" "collection_name_set sti"
    using that assms(2) by (simp add: insert_object_def)
  have c6: "st' = sti" if "vs_add_image depth s st d = (Inl e, st')" for e st'
    using that unfolding v
    by (auto split: if_splits option.splits dest: insert_object_error_unchanged)
  show ?thesis
  proof (intro conjI impI allI)
    assume "d_feature_vector d = []"
    then show "vs_add_image depth s st d = (Inl InvalidFeatureVector, sti)" by (rule c1)
  next
    assume "\<exists>v \<in> set (d_feature_vector d). \<forall>x. v \<noteq> Num x"
    then show "\<exists>i < length (d_feature_vector d). (\<forall>x. d_feature_vector d ! i \<noteq> Num x)
              \<and> vs_add_image depth s st d = (Inl (InvalidVectorValue i), sti)" by (rule c2)
  next
    assume a: "d_feature_vector d \<noteq> [] \<and> (\<forall>v \<in> set (d_feature_vector d). \<exists>x. v = Num x)
          \<and> rest_ok sti"
      and n: "length (d_feature_vector d) \<noteq> length (r_vector r)"
    from a have "d_feature_vector d \<noteq> []" "\<forall>v \<in> set (d_feature_vector d). \<exists>x. v = Num x"
      "rest_ok sti" by simp_all
    then show "vs_add_image depth s st d =
              (Inl (DimensionMismatch (length (r_vector r)) (length (d_feature_vector d))), sti)"
      using n by (rule c3)
  next
    assume a: "d_feature_vector d \<noteq> [] \<and> (\<forall>v \<in> set (d_feature_vector d). \<exists>x. v = Num x)
          \<and> rest_ok sti"
      and n: "length (d_feature_vector d) = length (r_vector r)"
    from a have "d_feature_vector d \<noteq> []" "\<forall>v \<in> set (d_feature_vector d). \<exists>x. v = Num x"
      "rest_ok sti" by simp_all
    then show "vs_add_image depth s st d = insert_object sti d"
      using n by (rule c4)
  next
    assume a: "d_feature_vector d \<noteq> [] \<and> (\<forall>v \<in> set (d_feature_vector d). \<exists>x. v = Num x)
          \<and> rest_ok sti"
      and n: "length (d_feature_vector d) = length (r_vector r)"
      and e: "engine_ok sti \<and> collection_name_set sti"
    from a have "d_feature_vector d \<noteq> []" "\<forall>v \<in> set (d_feature_vector d). \<exists>x. v = Num x"
      "rest_ok sti" by simp_all
    then have "vs_add_image depth s st d = insert_object sti d"
      using n by (rule c4)
    also from e have "insert_object sti d =
        (Inr (d_image_id d), sti\<lparr>collection := Some ((r # rs) @ [data_object d])\<rparr>)"
      by (intro c5) simp_all
    finally show "vs_add_image depth s st d =
        (Inr (d_image_id d), sti\<lparr>collection := Some ((r # rs) @ [data_object d])\<rparr>)" .
  next
    fix e st' assume "vs_add_image depth s st d = (Inl e, st')"
    then show "st' = sti" by (rule c6)
  qed
qed

theorem dimension_gate_witness:
  "vs_add_image 0
     \<lparr>app_mode = ''object'', object_backend = ''onnx'', pytorch_dinov3_path = [],
      pytorch_birefnet_path = [], dinov3_model_path = [], dinov3_model = [],
      bg_removal_model = ''u2netp'', face_model_name = ''buffalo_l''\<rparr>
     \<lparr>collection = Some [\<lparr>r_image_id = ''a'', r_object_id = ''X'', r_img_url = [],
                           r_img_object_url = [], r_custom_data = [], r_face_bbox = None,
                           r_face_score = None, r_vector = [Num 1, Num 0]\<rparr>],
      connected = True, collection_name_set = True, pipeline_built = False,
      engine_ok = True, rest_ok = True, legacy_ok = True, models_ok = True, files = [], locked = [],
      disk_ok = True, config_file = Missing\<rparr>
     \<lparr>d_image_id = ''b'', d_entity_id = ''X'', d_img_url = None, d_img_object_url = None,
      d_feature_vector = [Num 1, Num 0, Num 0], d_custom_data = [], d_face_bbox = None,
      d_face_score = None\<rparr>
   = (Inl (DimensionMismatch 2 3),
     \<lparr>collection = Some [\<lparr>r_image_id = ''a'', r_object_id = ''X'', r_img_url = [],
                           r_img_object_url = [], r_custom_data = [], r_face_bbox = None,
                           r_face_score = None, r_vector = [Num 1, Num 0]\<rparr>],
      connected = True, collection_name_set = True, pipeline_built = False,
      engine_ok = True, rest_ok = True, legacy_ok = True, models_ok = True, files = [], locked = [],
      disk_ok = True, config_file = Missing\<rparr>)"
  using dimension_gate[where depth = 0
     and s = "\<lparr>app_mode = ''object'', object_backend = ''onnx'', pytorch_dinov3_path = [],
      pytorch_birefnet_path = [], dinov3_model_path = [], dinov3_model = [],
      bg_removal_model = ''u2netp'', face_model_name = ''buffalo_l''\<rparr>"
     and st = "\<lparr>collection = Some [\<lparr>r_image_id = ''a'', r_object_id = ''X'', r_img_url = [],
                           r_img_object_url = [], r_custom_data = [], r_face_bbox = None,
                           r_face_score = None, r_vector = [Num 1, Num 0]\<rparr>],
      connected = True, collection_name_set = True, pipeline_built = False,
      engine_ok = True, rest_ok = True, legacy_ok = True, models_ok = True, files = [], locked = [],
      disk_ok = True, config_file = Missing\<rparr>"
     and sti = "\<lparr>collection = Some [\<lparr>r_image_id = ''a'', r_object_id = ''X'', r_img_url = [],
                           r_img_object_url = [], r_custom_data = [], r_face_bbox = None,
                           r_face_score = None, r_vector = [Num 1, Num 0]\<rparr>],
      connected = True, collection_name_set = True, pipeline_built = False,
      engine_ok = True, rest_ok = True, legacy_ok = True, models_ok = True, files = [], locked = [],
      disk_ok = True, config_file = Missing\<rparr>"
     and r = "\<lparr>r_image_id = ''a'', r_object_id = ''X'', r_img_url = [],
                           r_img_object_url = [], r_custom_data = [], r_face_bbox = None,
                           r_face_score = None, r_vector = [Num 1, Num 0]\<rparr>"
     and rs = "[]"
     and d = "\<lparr>d_image_id = ''b'', d_entity_id = ''X'', d_img_url = None, d_img_object_url = None,
      d_feature_vector = [Num 1, Num 0, Num 0], d_custom_data = [], d_face_bbox = None,
      d_face_score = None\<rparr>"]
  by simp

text \<open>
  The claim as stated fails in three ways. An empty vector differs in length from the
  stored two-dimensional vector, yet it is rejected by the earlier check with the
  invalid-vector error, not with the dimension-mismatch error. When the dimension probe
  does not answer, a three-dimensional vector is inserted into the collection of
  two-dimensional vectors. When the service has no client and the engine does not answer,
  the insert fails with the connection error before any check.
\<close>

theorem dimension_gate_counterexample:
  "vs_add_image 0
     \<lparr>app_mode = ''object'', object_backend = ''onnx'', pytorch_dinov3_path = [],
      pytorch_birefnet_path = [], dinov3_model_path = [], dinov3_model = [],
      bg_removal_model = ''u2netp'', face_model_name = ''buffalo_l''\<rparr>
     \<lparr>collection = Some [\<lparr>r_image_id = ''a'', r_object_id = ''X'', r_img_url = [],
                           r_img_object_url = [], r_custom_data = [], r_face_bbox = None,
                           r_face_score = None, r_vector = [Num 1, Num 0]\<rparr>],
      connected = True, collection_name_set = True, pipeline_built = False,
      engine_ok = True, rest_ok = True, legacy_ok = True, models_ok = True, files = [], locked = [],
      disk_ok = True, config_file = Missing\<rparr>
     \<lparr>d_image_id = ''b'', d_entity_id = ''X'', d_img_url = None, d_img_object_url = None,
      d_feature_vector = [], d_custom_data = [], d_face_bbox = None, d_face_score = None\<rparr>
   = (Inl InvalidFeatureVector,
     \<lparr>collection = Some [\<lparr>r_image_id = ''a'', r_object_id = ''X'', r_img_url = [],
                           r_img_object_url = [], r_custom_data = [], r_face_bbox = None,
                           r_face_score = None, r_vector = [Num 1, Num 0]\<rparr>],
      connected = True, collection_name_set = True, pipeline_built = False,
      engine_ok = True, rest_ok = True, legacy_ok = True, models_ok = True, files = [], locked = [],
      disk_ok = True, config_file = Missing\<rparr>)
   \<and> vs_add_image 0
     \<lparr>app_mode = ''object'', object_backend = ''onnx'', pytorch_dinov3_path = [],
      pytorch_birefnet_path = [], dinov3_model_path = [], dinov3_model = [],
      bg_removal_model = ''u2netp'', face_model_name = ''buffalo_l''\<rparr>
     \<lparr>collection = Some [\<lparr>r_image_id = ''a'', r_object_id = ''X'', r_img_url = [],
                           r_img_object_url = [], r_custom_data = [], r_face_bbox = None,
                           r_face_score = None, r_vector = [Num 1, Num 0]\<rparr>],
      connected = True, collection_name_set = True, pipeline_built = False,
      engine_ok = True, rest_ok = False, legacy_ok = True, models_ok = True, files = [], locked = [],
      disk_ok = True, config_file = Missing\<rparr>
     \<lparr>d_image_id = ''b'', d_entity_id = ''X'', d_img_url = None, d_img_object_url = None,
      d_feature_vector = [Num 1, Num 0, Num 0], d_custom_data = [], d_face_bbox = None,
      d_face_score = None\<rparr>
   = (Inr ''b'',
     \<lparr>collection = Some [\<lparr>r_image_id = ''a'', r_object_id = ''X'', r_img_url = [],
                           r_img_object_url = [], r_custom_data = [], r_face_bbox = None,
                           r_face_score = None, r_vector = [Num 1, Num 0]\<rparr>,
                         \<lparr>r_image_id = ''b'', r_object_id = ''X'', r_img_url = [],
                           r_img_object_url = [], r_custom_data = [], r_face_bbox = None,
                           r_face_score = None, r_vector = [Num 1, Num 0, Num 0]\<rparr>],
      connected = True, collection_name_set = True, pipeline_built = False,
      engine_ok = True, rest_ok = False, legacy_ok = True, models_ok = True, files = [], locked = [],
      disk_ok = True, config_file = Missing\<rparr>)
   \<and> fst (vs_add_image 0
     \<lparr>app_mode = ''object'', object_backend = ''onnx'', pytorch_dinov3_path = [],
      pytorch_birefnet_path = [], dinov3_model_path = [], dinov3_model = [],
      bg_removal_model = ''u2netp'', face_model_name = ''buffalo_l''\<rparr>
     \<lparr>collection = Some [\<lparr>r_image_id = ''a'', r_object_id = ''X'', r_img_url = [],
                           r_img_object_url = [], r_custom_data = [], r_face_bbox = None,
                           r_face_score = None, r_vector = [Num 1, Num 0]\<rparr>],
      connected = False, collection_name_set = False, pipeline_built = False,
      engine_ok = False, rest_ok = True, legacy_ok = True, models_ok = True, files = [], locked = [],
      disk_ok = True, config_file = Missing\<rparr>
     \<lparr>d_image_id = ''b'', d_entity_id = ''X'', d_img_url = None, d_img_object_url = None,
      d_feature_vector = [Num 1, Num 0, Num 0], d_custom_data = [], d_face_bbox = None,
      d_face_score = None\<rparr>)
   = Inl EngineError"
  by (simp add: vs_add_image_def get_vector_dimension_def insert_object_def data_object_def
        initialize_def get_client_def connect_def get_pipeline_def Let_def)

subsection \<open>Multi-scale detection\<close>

text \<open>
  C6, as amended. When the primary detector finds no face on a valid image and the
  loaded fallback detector finds at least one, the detection step yields the fallback's
  faces with the fallback size as the size used, and the pipeline logs exactly that size
  as the detection scale. Whatever the pipeline returns carries the fallback's first
  face; it returns it whenever the liveness check is not run or completes, and it
  returns nothing when the liveness check raises.
\<close>

theorem multi_scale_fallback:
  assumes "app p = Some primary" "primary img = Inr []"
    and "app_fallback p = Some fallback" "fallback img = Inr (f # fs)"
    and "img_width img * img_height img \<noteq> 0"
  shows "detect_multi_scale p primary img = Inr (f # fs, det_size_fallback p)
    \<and> FaceDetectedAt (det_size_fallback p) \<in> set (snd (preprocess p (Some img) el))
    \<and> (\<forall>sz. FaceDetectedAt sz \<in> set (snd (preprocess p (Some img) el)) \<longrightarrow> sz = det_size_fallback p)
    \<and> (\<forall>r. fst (preprocess p (Some img) el) = Some r \<longrightarrow> pr_face r = f)
    \<and> ((el = Some False \<or> \<not> settings_enable_liveness p \<or> liveness_detector p = None
         \<or> (\<exists>sessions res. liveness_detector p = Some sessions
               \<and> predict_with_threshold sessions img (liveness_bbox f)
                    (settings_liveness_threshold p)
                    (settings_liveness_paper_reject_threshold p)
                    (settings_liveness_screen_reject_threshold p) = Inr res))
        \<longrightarrow> (\<exists>r. fst (preprocess p (Some img) el) = Some r \<and> pr_face r = f))
    \<and> ((el \<noteq> Some False \<and> settings_enable_liveness p
         \<and> (\<exists>sessions e. liveness_detector p = Some sessions
               \<and> predict_with_threshold sessions img (liveness_bbox f)
                    (settings_liveness_threshold p)
                    (settings_liveness_paper_reject_threshold p)
                    (settings_liveness_screen_reject_threshold p) = Inl e))
        \<longrightarrow> fst (preprocess p (Some img) el) = None)"
proof -
  have d: "detect_multi_scale p primary img = Inr (f # fs, det_size_fallback p)"
    using assms by (simp add: detect_multi_scale_def)
  show ?thesis
    using assms(1,5) d
    by (auto simp: preprocess_def Let_def split: option.splits sum.splits prod.splits)
qed

theorem multi_scale_fallback_witness:
  "fst (preprocess
     \<lparr>app = Some (\<lambda>i. Inr []),
      app_fallback = Some (\<lambda>i. Inr [\<lparr>bbox = (10, 20, 40, 60), det_score = 9 / 10, kps = [],
                                      normed_embedding = Some [Num 1, Num 0]\<rparr>]),
      det_size = (640, 640), det_size_fallback = (256, 256), liveness_detector = None,
      settings_enable_liveness = False, settings_liveness_threshold = 6 / 10,
      settings_liveness_paper_reject_threshold = 3 / 10,
      settings_liveness_screen_reject_threshold = 3 / 10\<rparr>
     (Some \<lparr>img_width = 100, img_height = 80, img_content = 0\<rparr>) None)
   = Some \<lparr>pr_face = \<lparr>bbox = (10, 20, 40, 60), det_score = 9 / 10, kps = [],
                        normed_embedding = Some [Num 1, Num 0]\<rparr>, pr_liveness = None\<rparr>
   \<and> snd (preprocess
     \<lparr>app = Some (\<lambda>i. Inr []),
      app_fallback = Some (\<lambda>i. Inr [\<lparr>bbox = (10, 20, 40, 60), det_score = 9 / 10, kps = [],
                                      normed_embedding = Some [Num 1, Num 0]\<rparr>]),
      det_size = (640, 640), det_size_fallback = (256, 256), liveness_detector = None,
      settings_enable_liveness = False, settings_liveness_threshold = 6 / 10,
      settings_liveness_paper_reject_threshold = 3 / 10,
      settings_liveness_screen_reject_threshold = 3 / 10\<rparr>
     (Some \<lparr>img_width = 100, img_height = 80, img_content = 0\<rparr>) None)
   = [FaceDetectedAt (256, 256)]"
  using multi_scale_fallback[of
     "\<lparr>app = Some (\<lambda>i. Inr []),
      app_fallback = Some (\<lambda>i. Inr [\<lparr>bbox = (10, 20, 40, 60), det_score = 9 / 10, kps = [],
                                      normed_embedding = Some [Num 1, Num 0]\<rparr>]),
      det_size = (640, 640), det_size_fallback = (256, 256), liveness_detector = None,
      settings_enable_liveness = False, settings_liveness_threshold = 6 / 10,
      settings_liveness_paper_reject_threshold = 3 / 10,
      settings_liveness_screen_reject_threshold = 3 / 10\<rparr>"
     "\<lambda>i. Inr []" "\<lparr>img_width = 100, img_height = 80, img_content = 0\<rparr>"
     "\<lambda>i. Inr [\<lparr>bbox = (10, 20, 40, 60), det_score = 9 / 10, kps = [],
                                      normed_embedding = Some [Num 1, Num 0]\<rparr>]"
     "\<lparr>bbox = (10, 20, 40, 60), det_score = 9 / 10, kps = [],
                                      normed_embedding = Some [Num 1, Num 0]\<rparr>" "[]" None]
  by (simp add: preprocess_def detect_multi_scale_def)

text \<open>
  The claim as stated fails when the liveness check raises. Here the fallback detector
  finds a face whose box is half a pixel wide; the box handed to the liveness check has
  width \<open>int(0.5) = 0\<close>, the crop-box computation divides by it, and the pipeline
  returns nothing although the fallback detector found a face.
\<close>

theorem multi_scale_fallback_counterexample:
  "preprocess
     \<lparr>app = Some (\<lambda>i. Inr []),
      app_fallback = Some (\<lambda>i. Inr [\<lparr>bbox = (10, 20, 21 / 2, 60), det_score = 9 / 10, kps = [],
                                      normed_embedding = Some [Num 1, Num 0]\<rparr>]),
      det_size = (640, 640), det_size_fallback = (256, 256),
      liveness_detector = Some [\<lparr>sess_scale = 27 / 10,
                                  sess_run = (\<lambda>i b. (1 / 10, 8 / 10, 1 / 10))\<rparr>],
      settings_enable_liveness = True, settings_liveness_threshold = 6 / 10,
      settings_liveness_paper_reject_threshold = 3 / 10,
      settings_liveness_screen_reject_threshold = 3 / 10\<rparr>
     (Some \<lparr>img_width = 100, img_height = 80, img_content = 0\<rparr>) None
   = (None, [FaceDetectedAt (256, 256), LogError ''Error in face preprocessing''])"
  by (simp add: preprocess_def detect_multi_scale_def predict_with_threshold_def predict_def
        preprocess_face_def get_new_box_def liveness_bbox_def py_int_def)

subsection \<open>Threshold monotonicity of the search\<close>

lemma filter_sorted_desc_takeWhile:
  "sorted_wrt (\<lambda>a b. f b \<le> f a) xs \<Longrightarrow>
   filter (\<lambda>x. \<not> f x < (t::rat)) xs = takeWhile (\<lambda>x. \<not> f x < t) xs"
proof (induction xs)
  case Nil
  then show ?case by simp
next
  case (Cons x xs)
  show ?case
  proof (cases "f x < t")
    case True
    from Cons.prems have "\<forall>y \<in> set xs. f y \<le> f x" by simp
    with True have "\<forall>y \<in> set xs. f y < t" by auto
    then have "filter (\<lambda>x. \<not> f x < t) xs = []" by (simp add: filter_empty_conv)
    with True show ?thesis by simp
  next
    case False
    from Cons.prems have "sorted_wrt (\<lambda>a b. f b \<le> f a) xs" by simp
    with Cons.IH False show ?thesis by simp
  qed
qed

lemma takeWhile_prefix_mono:
  "(\<And>x. P x \<Longrightarrow> Q x) \<Longrightarrow> prefix (takeWhile P xs) (takeWhile Q xs)"
  by (induction xs) auto

lemma prefix_take_le: "a \<le> b \<Longrightarrow> prefix (take a xs) (take b xs)"
proof -
  assume "a \<le> b"
  then have "take a xs = take a (take b xs)" by (simp add: min_def)
  then show ?thesis by (metis take_is_prefix)
qed

lemma prefix_py_slice_to:
  assumes "prefix ys zs"
  shows "prefix (py_slice_to ys k) (py_slice_to zs k)"
proof -
  from assms obtain ws where zs: "zs = ys @ ws" by (auto simp: prefix_def)
  show ?thesis
  proof (cases "0 \<le> k")
    case True
    then show ?thesis by (simp add: py_slice_to_def zs)
  next
    case False
    have "prefix (take (length ys - nat (- k)) ys) (take (length ys + length ws - nat (- k)) ys)"
      by (rule prefix_take_le) simp
    also have "prefix (take (length ys + length ws - nat (- k)) ys)
                 (take (length ys + length ws - nat (- k)) (ys @ ws))"
      by simp
    finally show ?thesis using False by (simp add: py_slice_to_def zs)
  qed
qed

text \<open>
  C5. For an engine that returns its candidates in descending order of similarity and
  thresholds \<open>t1 \<le> t2\<close>, with the client, \<open>top_k\<close> and the filter fixed, the result at
  \<open>t2\<close> is an initial segment of the result at \<open>t1\<close>; so it is a subset of it and not
  longer.
\<close>

theorem threshold_monotone:
  assumes "\<And>lim f. sorted_wrt (\<lambda>a b. item_similarity kind b \<le> item_similarity kind a) (eng lim f)"
    and "t1 \<le> t2" and "kind \<noteq> UnknownClient"
  shows "\<exists>r1 r2. search_similar kind eng top_k t1 flt = Inr r1
               \<and> search_similar kind eng top_k t2 flt = Inr r2
               \<and> prefix r2 r1 \<and> set r2 \<subseteq> set r1 \<and> length r2 \<le> length r1"
proof -
  define items where
    "items = eng (min (top_k * 3) 100)
               (case flt of None \<Rightarrow> None | Some f \<Rightarrow> if f = [] then None else Some f)"
  define r where "r t = py_slice_to (map (to_response kind)
                     (filter (\<lambda>item. \<not> item_similarity kind item < t) items)) top_k" for t
  have s: "search_similar kind eng top_k t flt = Inr (r t)" for t
    using assms(3) by (simp add: search_similar_def Let_def r_def items_def)
  have srt: "sorted_wrt (\<lambda>a b. item_similarity kind b \<le> item_similarity kind a) items"
    unfolding items_def by (rule assms(1))
  have f: "filter (\<lambda>item. \<not> item_similarity kind item < t) items
             = takeWhile (\<lambda>item. \<not> item_similarity kind item < t) items" for t
    by (rule filter_sorted_desc_takeWhile[OF srt])
  have "prefix (takeWhile (\<lambda>item. \<not> item_similarity kind item < t2) items)
               (takeWhile (\<lambda>item. \<not> item_similarity kind item < t1) items)"
    using assms(2) by (intro takeWhile_prefix_mono) auto
  then have "prefix (map (to_response kind) (filter (\<lambda>item. \<not> item_similarity kind item < t2) items))
               (map (to_response kind) (filter (\<lambda>item. \<not> item_similarity kind item < t1) items))"
    unfolding f by (rule map_mono_prefix)
  then have p: "prefix (r t2) (r t1)"
    unfolding r_def by (rule prefix_py_slice_to)
  then have "set (r t2) \<subseteq> set (r t1)" "length (r t2) \<le> length (r t1)"
    by (auto simp: set_mono_prefix prefix_length_le)
  with p s show ?thesis by blast
qed

theorem threshold_monotone_witness:
  "search_similar Legacy
     (\<lambda>lim f. [\<lparr>it_image_id = ''a'', it_object_id = ''X'', it_img_url = [], it_img_object_url = [],
                 it_custom_data = [], it_score = Some (9 / 10)\<rparr>,
               \<lparr>it_image_id = ''b'', it_object_id = ''Y'', it_img_url = [], it_img_object_url = [],
                 it_custom_data = [], it_score = Some (8 / 10)\<rparr>]) 10 (85 / 100) None
   = Inr [\<lparr>image_id = ''a'', object_id = ''X'', similarity = 9 / 10, img_url = None,
           img_object_url = None, custom_data = []\<rparr>]
   \<and> search_similar Legacy
     (\<lambda>lim f. [\<lparr>it_image_id = ''a'', it_object_id = ''X'', it_img_url = [], it_img_object_url = [],
                 it_custom_data = [], it_score = Some (9 / 10)\<rparr>,
               \<lparr>it_image_id = ''b'', it_object_id = ''Y'', it_img_url = [], it_img_object_url = [],
                 it_custom_data = [], it_score = Some (8 / 10)\<rparr>]) 10 (1 / 2) None
   = Inr [\<lparr>image_id = ''a'', object_id = ''X'', similarity = 9 / 10, img_url = None,
           img_object_url = None, custom_data = []\<rparr>,
          \<lparr>image_id = ''b'', object_id = ''Y'', similarity = 8 / 10, img_url = None,
           img_object_url = None, custom_data = []\<rparr>]"
  using threshold_monotone[of Legacy
     "\<lambda>lim f. [\<lparr>it_image_id = ''a'', it_object_id = ''X'', it_img_url = [], it_img_object_url = [],
                 it_custom_data = [], it_score = Some (9 / 10)\<rparr>,
               \<lparr>it_image_id = ''b'', it_object_id = ''Y'', it_img_url = [], it_img_object_url = [],
                 it_custom_data = [], it_score = Some (8 / 10)\<rparr>]" "1 / 2" "85 / 100" 10 None]
  by (simp add: search_similar_def item_similarity_def to_response_def or_none_def
        py_slice_to_def Let_def)


subsection \<open>Model-change reconciliation\<close>

lemma dict_eq_iff_map_of:
  assumes "distinct (map fst a)" "distinct (map fst b)"
  shows "dict_eq a b \<longleftrightarrow> map_of a = map_of b"
proof
  assume d: "dict_eq a b"
  show "map_of a = map_of b"
  proof
    fix k
    show "map_of a k = map_of b k"
    proof (cases "map_of a k")
      case None
      show ?thesis
      proof (cases "map_of b k")
        case n: None
        with None show ?thesis by simp
      next
        case (Some v)
        then have "(k, v) \<in> set b" by (rule map_of_SomeD)
        with d have "map_of a k = Some v" by (auto simp: dict_eq_def list_all_iff)
        with None show ?thesis by simp
      qed
    next
      case (Some v)
      then have "(k, v) \<in> set a" by (rule map_of_SomeD)
      with d have "map_of b k = Some v" by (auto simp: dict_eq_def list_all_iff)
      with Some show ?thesis by simp
    qed
  qed
next
  assume e: "map_of a = map_of b"
  have "map_of b k = Some v" if "(k, v) \<in> set a" for k v
    using that assms(1) e by (metis map_of_is_SomeI)
  moreover have "map_of a k = Some v" if "(k, v) \<in> set b" for k v
    using that assms(2) e by (metis map_of_is_SomeI)
  ultimately show "dict_eq a b" by (auto simp: dict_eq_def list_all_iff)
qed

lemma collection_save_current_config [simp]:
  "collection (save_current_config s st) = collection st"
  by (simp add: save_current_config_def Let_def)


text \<open>None of the modelled operations changes whether the engine answers, whether the
  legacy client is at hand, whether the model directories load or whether the disk
  accepts writes.\<close>

lemma same_env_refl [simp]: "same_env st st"
  by (simp add: same_env_def)

lemma env_setup_collection [simp]:
  "engine_ok (setup_collection st) = engine_ok st"
  "legacy_ok (setup_collection st) = legacy_ok st"
  "models_ok (setup_collection st) = models_ok st"
  "disk_ok (setup_collection st) = disk_ok st"
  by (simp_all add: setup_collection_def split: option.splits)

lemma env_save_current_config [simp]:
  "engine_ok (save_current_config s st) = engine_ok st"
  "legacy_ok (save_current_config s st) = legacy_ok st"
  "models_ok (save_current_config s st) = models_ok st"
  "disk_ok (save_current_config s st) = disk_ok st"
  by (simp_all add: save_current_config_def Let_def)
















subsection \<open>Truncation and the crop box\<close>

lemma py_int_mono:
  assumes "x \<le> y"
  shows "py_int x \<le> py_int y"
proof (cases "0 \<le> x")
  case True
  with assms have "0 \<le> y" by simp
  with True assms show ?thesis by (simp add: py_int_def floor_mono)
next
  case False
  show ?thesis
  proof (cases "0 \<le> y")
    case True
    from False have "\<lceil>x\<rceil> \<le> 0" by (simp add: ceiling_le_zero)
    moreover from True have "0 \<le> \<lfloor>y\<rfloor>" by (simp add: zero_le_floor)
    ultimately have "\<lceil>x\<rceil> \<le> \<lfloor>y\<rfloor>" by linarith
    with False True show ?thesis by (simp add: py_int_def)
  next
    case y: False
    with False assms show ?thesis by (simp add: py_int_def ceiling_mono)
  qed
qed

lemma py_int_nonneg: "0 \<le> x \<Longrightarrow> 0 \<le> py_int x"
  by (simp add: py_int_def)

lemma py_int_le_int: "x \<le> of_int n \<Longrightarrow> py_int x \<le> n"
  unfolding py_int_def by (auto simp: floor_le_iff ceiling_le_iff)

lemma axis_bounds:
  assumes "0 \<le> nw" "nw \<le> bound" "sz = bound + 1"
  shows "0 \<le> axis_lo c nw sz bound \<and> axis_lo c nw sz bound \<le> axis_hi c nw bound
         \<and> axis_hi c nw bound \<le> bound"
  using assms unfolding axis_lo_def axis_hi_def Let_def by (auto split: if_splits)

lemma get_new_box_axes:
  assumes "box_w \<noteq> 0" "box_h \<noteq> 0"
  shows "get_new_box src_w src_h (x, y, box_w, box_h) scale0 =
     (let scale = min (of_int (src_h - 1) / of_int box_h)
                          (min (of_int (src_w - 1) / of_int box_w) scale0);
          new_width = of_int box_w * scale;
          new_height = of_int box_h * scale;
          center_x = of_int box_w / 2 + of_int x;
          center_y = of_int box_h / 2 + of_int y
      in Inr (py_int (axis_lo center_x new_width (of_int src_w) (of_int (src_w - 1))),
              py_int (axis_lo center_y new_height (of_int src_h) (of_int (src_h - 1))),
              py_int (axis_hi center_x new_width (of_int (src_w - 1))),
              py_int (axis_hi center_y new_height (of_int (src_h - 1)))))"
  using assms
  by (simp only: get_new_box_def axis_lo_def axis_hi_def Let_def prod.case simp_thms if_False)

lemma get_new_box_bounds:
  assumes "1 \<le> src_w" "1 \<le> src_h" "1 \<le> box_w" "1 \<le> box_h" "0 \<le> scale0"
  shows "\<exists>l t r b. get_new_box src_w src_h (x, y, box_w, box_h) scale0 = Inr (l, t, r, b)
          \<and> 0 \<le> l \<and> l \<le> r \<and> r \<le> src_w - 1 \<and> 0 \<le> t \<and> t \<le> b \<and> b \<le> src_h - 1"
proof -
  define sc :: rat where "sc = min (of_int (src_h - 1) / of_int box_h)
                          (min (of_int (src_w - 1) / of_int box_w) scale0)"
  have pw: "(0::rat) < of_int box_w" and ph: "(0::rat) < of_int box_h"
    using assms(3,4) by simp_all
  have nw1: "(0::rat) \<le> of_int (src_w - 1)" and nh1: "(0::rat) \<le> of_int (src_h - 1)"
    using assms(1,2) by simp_all
  have qa: "(0::rat) \<le> of_int (src_h - 1) / of_int box_h"
    using nh1 ph by (intro divide_nonneg_nonneg) simp_all
  have qb: "(0::rat) \<le> of_int (src_w - 1) / of_int box_w"
    using nw1 pw by (intro divide_nonneg_nonneg) simp_all
  have sc0: "0 \<le> sc"
    unfolding sc_def by (intro min.boundedI qa qb assms(5))
  have scw: "sc \<le> of_int (src_w - 1) / of_int box_w"
    unfolding sc_def by (rule min.coboundedI2) (rule min.cobounded1)
  have sch: "sc \<le> of_int (src_h - 1) / of_int box_h"
    unfolding sc_def by (rule min.cobounded1)
  have "of_int box_w * sc \<le> of_int box_w * (of_int (src_w - 1) / of_int box_w)"
    using scw pw by (intro mult_left_mono) simp_all
  also have "\<dots> = of_int (src_w - 1)" using pw by simp
  finally have w: "of_int box_w * sc \<le> of_int (src_w - 1)" .
  have "of_int box_h * sc \<le> of_int box_h * (of_int (src_h - 1) / of_int box_h)"
    using sch ph by (intro mult_left_mono) simp_all
  also have "\<dots> = of_int (src_h - 1)" using ph by simp
  finally have h: "of_int box_h * sc \<le> of_int (src_h - 1)" .
  have w0: "0 \<le> of_int box_w * sc" using pw sc0 by (intro mult_nonneg_nonneg) simp_all
  have h0: "0 \<le> of_int box_h * sc" using ph sc0 by (intro mult_nonneg_nonneg) simp_all
  have sw: "(of_int src_w :: rat) = of_int (src_w - 1) + 1" by simp
  have sh: "(of_int src_h :: rat) = of_int (src_h - 1) + 1" by simp
  note X = axis_bounds[OF w0 w sw, of "of_int box_w / 2 + of_int x"]
  note Y = axis_bounds[OF h0 h sh, of "of_int box_h / 2 + of_int y"]
  have nz: "box_w \<noteq> 0" "box_h \<noteq> 0" using assms(3,4) by simp_all
  have eq: "get_new_box src_w src_h (x, y, box_w, box_h) scale0 =
      Inr (py_int (axis_lo (of_int box_w / 2 + of_int x) (of_int box_w * sc) (of_int src_w) (of_int (src_w - 1))),
           py_int (axis_lo (of_int box_h / 2 + of_int y) (of_int box_h * sc) (of_int src_h) (of_int (src_h - 1))),
           py_int (axis_hi (of_int box_w / 2 + of_int x) (of_int box_w * sc) (of_int (src_w - 1))),
           py_int (axis_hi (of_int box_h / 2 + of_int y) (of_int box_h * sc) (of_int (src_h - 1))))"
    unfolding get_new_box_axes[OF nz] Let_def sc_def by (rule refl)
  define l where "l = py_int (axis_lo (of_int box_w / 2 + of_int x) (of_int box_w * sc) (of_int src_w) (of_int (src_w - 1)))"
  define t where "t = py_int (axis_lo (of_int box_h / 2 + of_int y) (of_int box_h * sc) (of_int src_h) (of_int (src_h - 1)))"
  define r where "r = py_int (axis_hi (of_int box_w / 2 + of_int x) (of_int box_w * sc) (of_int (src_w - 1)))"
  define b where "b = py_int (axis_hi (of_int box_h / 2 + of_int y) (of_int box_h * sc) (of_int (src_h - 1)))"
  have g: "get_new_box src_w src_h (x, y, box_w, box_h) scale0 = Inr (l, t, r, b)"
    unfolding eq l_def t_def r_def b_def by (rule refl)
  have "0 \<le> l" unfolding l_def by (rule py_int_nonneg[OF X[THEN conjunct1]])
  moreover have "l \<le> r"
    unfolding l_def r_def by (rule py_int_mono[OF X[THEN conjunct2, THEN conjunct1]])
  moreover have "r \<le> src_w - 1"
    unfolding r_def by (rule py_int_le_int[OF X[THEN conjunct2, THEN conjunct2]])
  moreover have "0 \<le> t" unfolding t_def by (rule py_int_nonneg[OF Y[THEN conjunct1]])
  moreover have "t \<le> b"
    unfolding t_def b_def by (rule py_int_mono[OF Y[THEN conjunct2, THEN conjunct1]])
  moreover have "b \<le> src_h - 1"
    unfolding b_def by (rule py_int_le_int[OF Y[THEN conjunct2, THEN conjunct2]])
  ultimately show ?thesis using g by blast
qed

lemma py_slice_len_inside:
  "0 \<le> s \<Longrightarrow> s \<le> e \<Longrightarrow> e \<le> n - 1 \<Longrightarrow> py_slice_len n s (e + 1) = e - s + 1"
  by (simp add: py_slice_len_def Let_def)

text \<open>
  C9. For an image of at least 2 by 2 pixels, a face box of positive width and height
  inside the image and a positive scale, the crop box has integer coordinates with
  \<open>0 \<le> left \<le> right \<le> src_w - 1\<close> and \<open>0 \<le> top \<le> bottom \<le> src_h - 1\<close>, and the crop
  taken from it has \<open>bottom - top + 1 \<ge> 1\<close> rows and \<open>right - left + 1 \<ge> 1\<close> columns.
\<close>

theorem crop_box_within_image:
  assumes "2 \<le> src_w" "2 \<le> src_h" "1 \<le> box_w" "1 \<le> box_h"
    and "0 \<le> x" "0 \<le> y" "x + box_w \<le> src_w" "y + box_h \<le> src_h" "0 < scale0"
  shows "\<exists>l t r b.
           get_new_box src_w src_h (x, y, box_w, box_h) scale0 = Inr (l, t, r, b)
           \<and> 0 \<le> l \<and> l \<le> r \<and> r \<le> src_w - 1 \<and> 0 \<le> t \<and> t \<le> b \<and> b \<le> src_h - 1
           \<and> preprocess_face_crop_shape src_w src_h (x, y, box_w, box_h) scale0
               = Inr (b - t + 1, r - l + 1)
           \<and> 1 \<le> b - t + 1 \<and> 1 \<le> r - l + 1"
proof -
  from assms have "1 \<le> src_w" "1 \<le> src_h" "0 \<le> scale0" by auto
  from get_new_box_bounds[OF this(1,2) assms(3,4) this(3), of x y]
  obtain l t r b where
    g: "get_new_box src_w src_h (x, y, box_w, box_h) scale0 = Inr (l, t, r, b)"
    and b: "0 \<le> l" "l \<le> r" "r \<le> src_w - 1" "0 \<le> t" "t \<le> b" "b \<le> src_h - 1"
    by blast
  have "preprocess_face_crop_shape src_w src_h (x, y, box_w, box_h) scale0
          = Inr (b - t + 1, r - l + 1)"
    using b by (simp add: preprocess_face_crop_shape_def g py_slice_len_inside)
  with g b show ?thesis by auto
qed

theorem crop_box_within_image_witness:
  "get_new_box 100 80 (10, 20, 30, 40) (27 / 10) = Inr (0, 0, 59, 79)
   \<and> preprocess_face_crop_shape 100 80 (10, 20, 30, 40) (27 / 10) = Inr (80, 60)"
proof -
  have e: "get_new_box 100 80 (10, 20, 30, 40) (27 / 10) = Inr (0, 0, 59, 79)"
    by (simp add: get_new_box_def Let_def py_int_def)
  from crop_box_within_image[of 100 80 30 40 10 20 "27 / 10"]
  show ?thesis unfolding e by simp
qed

subsection \<open>Liveness decision\<close>

text \<open>
  C4. Whenever the ensemble produces scores, the verdict is `real' exactly when
  \<open>real_score > threshold\<close>, \<open>paper_score < paper_reject_threshold\<close> and
  \<open>screen_score < screen_reject_threshold\<close> all hold; and when the real score is above
  its threshold while the paper score is at or above its reject threshold, the verdict
  is a rejection whose reason names the paper score and the paper threshold.
\<close>

theorem liveness_strict_and:
  assumes "predict sessions img bb = Inr (label_real, score, d)"
  shows "\<exists>v. predict_with_threshold sessions img bb thr pthr sthr =
               Inr (thr < real_score d \<and> paper_score d < pthr \<and> screen_score d < sthr, score, v)
           \<and> real_score v = real_score d \<and> paper_score v = paper_score d
           \<and> screen_score v = screen_score d
           \<and> passed v = (thr < real_score d \<and> paper_score d < pthr \<and> screen_score d < sthr)
           \<and> (passed v \<longrightarrow> reject_reason v = None)
           \<and> (thr < real_score d \<and> pthr \<le> paper_score d \<longrightarrow>
                \<not> passed v \<and> reject_reason v = Some (PaperScoreTooHigh (paper_score d) pthr))"
  using assms
  by (auto simp: predict_with_threshold_def Let_def liveness_details.defs)

theorem liveness_strict_and_witness:
  "\<exists>v. predict_with_threshold
          [\<lparr>sess_scale = 27 / 10, sess_run = (\<lambda>i b. (4 / 10, 5 / 10, 1 / 10))\<rparr>]
          \<lparr>img_width = 100, img_height = 80, img_content = 0\<rparr> (10, 20, 30, 40)
          (45 / 100) (3 / 10) (3 / 10) = Inr (False, 1 / 2, v)
      \<and> \<not> passed v \<and> reject_reason v = Some (PaperScoreTooHigh (4 / 10) (3 / 10))"
proof -
  have p: "predict [\<lparr>sess_scale = 27 / 10, sess_run = (\<lambda>i b. (4 / 10, 5 / 10, 1 / 10))\<rparr>]
             \<lparr>img_width = 100, img_height = 80, img_content = 0\<rparr> (10, 20, 30, 40)
           = Inr (True, 1 / 2, \<lparr>real_score = 5 / 10, paper_score = 4 / 10, screen_score = 1 / 10,
                                label = 1, num_models = 1\<rparr>)"
    by (simp add: predict_def preprocess_face_def preprocess_face_crop_shape_def
          get_new_box_def Let_def py_int_def py_slice_len_def argmax3_def)
  show ?thesis
    using liveness_strict_and[OF p, of "45 / 100" "3 / 10" "3 / 10"] by clarsimp
qed

subsection \<open>Rounding to two decimals\<close>

lemma round_half_even_lower: "\<lfloor>x\<rfloor> \<le> round_half_even x"
  by (simp add: round_half_even_def Let_def)

lemma round_half_even_upper: "round_half_even x \<le> \<lfloor>x\<rfloor> + 1"
  by (simp add: round_half_even_def Let_def)

lemma round_half_even_mono:
  assumes "x \<le> y"
  shows "round_half_even x \<le> round_half_even y"
proof (cases "\<lfloor>x\<rfloor> = \<lfloor>y\<rfloor>")
  case True
  have "x - of_int \<lfloor>y\<rfloor> \<le> y - of_int \<lfloor>y\<rfloor>" using assms by simp
  then show ?thesis
    unfolding round_half_even_def Let_def True by (auto split: if_splits)
next
  case False
  with floor_mono[OF assms] have "\<lfloor>x\<rfloor> + 1 \<le> \<lfloor>y\<rfloor>" by simp
  with round_half_even_upper[of x] round_half_even_lower[of y] show ?thesis by linarith
qed

lemma round_half_even_of_int [simp]: "round_half_even (of_int n) = n"
  by (simp add: round_half_even_def Let_def)

lemma round2_mono: "x \<le> y \<Longrightarrow> round2 x \<le> round2 y"
proof -
  assume "x \<le> y"
  then have "x * 100 \<le> y * 100" by simp
  then have "round_half_even (x * 100) \<le> round_half_even (y * 100)"
    by (rule round_half_even_mono)
  then have "(of_int (round_half_even (x * 100)) :: rat) \<le> of_int (round_half_even (y * 100))"
    by simp
  then show ?thesis unfolding round2_def by (simp add: divide_right_mono)
qed

lemma round2_idem [simp]: "round2 (round2 x) = round2 x"
proof -
  have "round2 x * 100 = of_int (round_half_even (x * 100))" by (simp add: round2_def)
  then have "round_half_even (round2 x * 100) = round_half_even (x * 100)" by simp
  then show ?thesis by (simp add: round2_def)
qed

lemma round2_zero [simp]: "round2 0 = 0"
  by (simp add: round2_def round_half_even_def)

lemma max_similarity_step:
  assumes "cur = round2 m"
  shows "(if s > cur then round2 s else cur) = round2 (max m s)"
proof (cases "s > cur")
  case True
  show ?thesis
  proof (cases "m \<le> s")
    case m: True
    with True show ?thesis by (simp add: max_def)
  next
    case False
    then have "s \<le> m" by simp
    then have "round2 s \<le> cur" unfolding assms by (rule round2_mono)
    moreover from True have "round2 cur \<le> round2 s" by (intro round2_mono) simp
    then have "cur \<le> round2 s" by (simp add: assms)
    ultimately have "round2 s = cur" by simp
    with True False show ?thesis by (simp add: max_def assms)
  qed
next
  case False
  then have le: "s \<le> cur" by simp
  show ?thesis
  proof (cases "m \<le> s")
    case True
    then have "cur \<le> round2 s" unfolding assms by (rule round2_mono)
    moreover from le have "round2 s \<le> round2 cur" by (rule round2_mono)
    then have "round2 s \<le> cur" by (simp add: assms)
    ultimately have "round2 s = cur" by simp
    with False True show ?thesis by (simp add: max_def)
  next
    case m: False
    with False show ?thesis by (simp add: max_def assms)
  qed
qed

subsection \<open>The grouping loop\<close>

lemma map_fst_map_entry [simp]: "map fst (AList.map_entry k f xs) = map fst xs"
  by (induction xs) auto

lemma keys_group_step:
  "map fst (group_step mk g r) =
     (if map_of g (object_id r) = None then map fst g @ [object_id r] else map fst g)"
  by (simp add: group_step_def Let_def)

lemma map_of_group_step_other:
  "k \<noteq> object_id r \<Longrightarrow> map_of (group_step mk g r) k = map_of g k"
  by (simp add: group_step_def Let_def map_of_map_entry map_add_def split: option.splits)

lemma map_of_group_step_same:
  "map_of (group_step mk g r) (object_id r) =
     Some (let gr0 = (case map_of g (object_id r) of
                        None \<Rightarrow> \<lparr>entity_id = object_id r, members = [], max_similarity = 0\<rparr>
                      | Some gr \<Rightarrow> gr);
               gr1 = gr0\<lparr>members := members gr0 @ [mk r]\<rparr>
           in if similarity r > max_similarity gr1
              then gr1\<lparr>max_similarity := round2 (similarity r)\<rparr> else gr1)"
  by (cases "map_of g (object_id r)")
     (simp_all add: group_step_def Let_def map_of_map_entry map_add_def)

lemma fold_max_snoc: "fold max (xs @ [s]) (a::rat) = max (fold max xs a) s"
  by (simp add: max.commute)

lemma group_inv_step:
  assumes "group_inv mk g ps"
  shows "group_inv mk (group_step mk g r) (ps @ [r])"
proof -
  from assms have d: "distinct (map fst g)" and ks: "set (map fst g) = object_id ` set ps"
    and v: "\<And>k gr. map_of g k = Some gr \<Longrightarrow>
           entity_id gr = k
           \<and> members gr = map mk (filter (\<lambda>r. object_id r = k) ps)
           \<and> max_similarity gr =
               round2 (fold max (map similarity (filter (\<lambda>r. object_id r = k) ps)) 0)"
    unfolding group_inv_def by blast+
  have none_iff: "map_of g k = None \<longleftrightarrow> k \<notin> object_id ` set ps" for k
    using ks by (simp add: map_of_eq_None_iff)
  have d': "distinct (map fst (group_step mk g r))"
    using d by (auto simp: keys_group_step map_of_eq_None_iff)
  have ks': "set (map fst (group_step mk g r)) = object_id ` set (ps @ [r])"
    using ks by (auto simp: keys_group_step map_of_eq_None_iff)
  have v': "entity_id gr = k
           \<and> members gr = map mk (filter (\<lambda>r. object_id r = k) (ps @ [r]))
           \<and> max_similarity gr =
               round2 (fold max (map similarity (filter (\<lambda>r. object_id r = k) (ps @ [r]))) 0)"
    if m: "map_of (group_step mk g r) k = Some gr" for k gr
  proof (cases "k = object_id r")
    case False
    with m have "map_of g k = Some gr" by (simp add: map_of_group_step_other)
    from v[OF this] False show ?thesis by simp
  next
    case True
    define gr0 where "gr0 = (case map_of g (object_id r) of
                        None \<Rightarrow> \<lparr>entity_id = object_id r, members = [], max_similarity = 0\<rparr>
                      | Some gr \<Rightarrow> gr)"
    define old where "old = filter (\<lambda>x. object_id x = object_id r) ps"
    have g0: "entity_id gr0 = object_id r \<and> members gr0 = map mk old
              \<and> max_similarity gr0 = round2 (fold max (map similarity old) 0)"
    proof (cases "map_of g (object_id r)")
      case None
      then have "object_id r \<notin> object_id ` set ps" by (simp add: none_iff)
      then have "\<forall>x \<in> set ps. object_id x \<noteq> object_id r" by (metis imageI)
      then have "old = []" by (simp add: old_def filter_empty_conv)
      with None show ?thesis by (simp add: gr0_def)
    next
      case (Some a)
      from v[OF Some] Some show ?thesis by (simp add: gr0_def old_def)
    qed
    have gr: "gr = (let gr1 = gr0\<lparr>members := members gr0 @ [mk r]\<rparr>
           in if similarity r > max_similarity gr1
              then gr1\<lparr>max_similarity := round2 (similarity r)\<rparr> else gr1)"
      using m unfolding True map_of_group_step_same gr0_def by (auto simp: Let_def)
    have mx: "max_similarity gr =
        (if similarity r > max_similarity gr0 then round2 (similarity r) else max_similarity gr0)"
      by (simp add: gr Let_def)
    have "max_similarity gr = round2 (max (fold max (map similarity old) 0) (similarity r))"
      unfolding mx using g0 by (intro max_similarity_step) simp
    moreover have "members gr = map mk old @ [mk r]" using g0 by (simp add: gr Let_def)
    moreover have "entity_id gr = object_id r" using g0 by (simp add: gr Let_def)
    moreover have "filter (\<lambda>x. object_id x = k) (ps @ [r]) = old @ [r]"
      by (simp add: True old_def)
    ultimately show ?thesis by (simp add: True fold_max_snoc max.commute)
  qed
  show ?thesis
    unfolding group_inv_def using d' ks' v' by blast
qed

lemma group_inv_loop:
  "group_inv mk g ps \<Longrightarrow> group_inv mk (group_loop mk g rs) (ps @ rs)"
proof (induction rs arbitrary: g ps)
  case Nil
  then show ?case by simp
next
  case (Cons r rs)
  from group_inv_step[OF Cons.prems] have "group_inv mk (group_step mk g r) (ps @ [r])" .
  from Cons.IH[OF this] show ?case by simp
qed

lemma group_inv_grouped_results: "group_inv mk (grouped_results mk rs) rs"
proof -
  have "group_inv mk [] []" by (simp add: group_inv_def)
  from group_inv_loop[OF this, of rs] show ?thesis by (simp add: grouped_results_def)
qed

lemma fold_max_eq_Max: "fold max xs (a::rat) = Max (insert a (set xs))"
proof -
  have "Max (set (a # xs)) = fold max xs a" by (rule Max.set_eq_fold)
  then show ?thesis by simp
qed

lemma mset_filter_disjoint:
  "(\<And>x. \<not> (P x \<and> Q x)) \<Longrightarrow>
   mset (filter P xs) + mset (filter Q xs) = mset (filter (\<lambda>x. P x \<or> Q x) xs)"
  by (induction xs) auto

lemma mset_concat_filter_keys:
  "distinct ks \<Longrightarrow>
   mset (concat (map (\<lambda>k. filter (\<lambda>r. f r = k) ps) ks)) = mset (filter (\<lambda>r. f r \<in> set ks) ps)"
proof (induction ks)
  case Nil
  then show ?case by simp
next
  case (Cons k ks)
  then have "k \<notin> set ks" "distinct ks" by simp_all
  then have "mset (filter (\<lambda>r. f r = k) ps) + mset (filter (\<lambda>r. f r \<in> set ks) ps)
        = mset (filter (\<lambda>r. f r = k \<or> f r \<in> set ks) ps)"
    by (intro mset_filter_disjoint) auto
  with Cons.IH[OF \<open>distinct ks\<close>] show ?case by simp
qed

lemma group_inv_members:
  assumes "group_inv mk g ps"
  shows "mset (concat (map (members \<circ> snd) g)) = mset (map mk ps)"
proof -
  from assms have d: "distinct (map fst g)" and ks: "set (map fst g) = object_id ` set ps"
    and v: "\<And>k gr. map_of g k = Some gr \<Longrightarrow>
           members gr = map mk (filter (\<lambda>r. object_id r = k) ps)"
    unfolding group_inv_def by blast+
  have "(members \<circ> snd) e = map mk (filter (\<lambda>r. object_id r = fst e) ps)" if "e \<in> set g" for e
  proof -
    have "map_of g (fst e) = Some (snd e)" using that d by (simp add: map_of_eq_Some_iff)
    from v[OF this] show ?thesis by simp
  qed
  then have "map (members \<circ> snd) g
               = map (\<lambda>e. map mk (filter (\<lambda>r. object_id r = fst e) ps)) g"
    by (intro map_cong) simp_all
  also have "\<dots> = map (map mk) (map (\<lambda>k. filter (\<lambda>r. object_id r = k) ps) (map fst g))"
    by (simp add: comp_def)
  finally have e: "map (members \<circ> snd) g
        = map (map mk) (map (\<lambda>k. filter (\<lambda>r. object_id r = k) ps) (map fst g))" .
  have "concat (map (members \<circ> snd) g)
        = map mk (concat (map (\<lambda>k. filter (\<lambda>r. object_id r = k) ps) (map fst g)))"
    unfolding e by (simp only: map_concat)
  then have "mset (concat (map (members \<circ> snd) g))
        = image_mset mk (mset (concat (map (\<lambda>k. filter (\<lambda>r. object_id r = k) ps) (map fst g))))"
    by simp
  also have "\<dots> = image_mset mk (mset (filter (\<lambda>r. object_id r \<in> set (map fst g)) ps))"
    by (simp only: mset_concat_filter_keys[OF d])
  also have "filter (\<lambda>r. object_id r \<in> set (map fst g)) ps = ps"
    unfolding ks by (simp add: filter_id_conv)
  finally show ?thesis by (simp add: comp_def)
qed

text \<open>
  C1, as amended. Grouping a flat list of results yields exactly one group per distinct
  entity id; each group lists, in order, the results of its entity, so that the members
  of all groups together are the input results, none dropped and none duplicated (and
  so are their image ids, in both modes); and each group's \<open>max_similarity\<close> is the
  largest similarity of its entity, or zero when none is positive, rounded to two
  decimals.
\<close>

theorem grouping_correct:
  "distinct (map fst (grouped_results mk rs))
   \<and> set (map fst (grouped_results mk rs)) = object_id ` set rs
   \<and> (\<forall>(k, gr) \<in> set (grouped_results mk rs).
         entity_id gr = k
         \<and> members gr = map mk (filter (\<lambda>r. object_id r = k) rs)
         \<and> max_similarity gr =
             round2 (Max (insert 0 (similarity ` {r \<in> set rs. object_id r = k}))))
   \<and> mset (concat (map (members \<circ> snd) (grouped_results mk rs))) = mset (map mk rs)
   \<and> mset (concat (map (map m_image_id \<circ> members \<circ> snd) (grouped_results object_member rs)))
       = mset (map image_id rs)
   \<and> mset (concat (map (map m_image_id \<circ> members \<circ> snd) (grouped_results face_member rs)))
       = mset (map image_id rs)"
proof -
  note inv = group_inv_grouped_results
  have d: "distinct (map fst (grouped_results mk rs))"
    and ks: "set (map fst (grouped_results mk rs)) = object_id ` set rs"
    using inv[of mk rs] unfolding group_inv_def by blast+
  have v: "entity_id gr = k
         \<and> members gr = map mk (filter (\<lambda>r. object_id r = k) rs)
         \<and> max_similarity gr =
             round2 (Max (insert 0 (similarity ` {r \<in> set rs. object_id r = k})))"
    if "(k, gr) \<in> set (grouped_results mk rs)" for k gr
  proof -
    from that d have "map_of (grouped_results mk rs) k = Some gr" by simp
    with inv[of mk rs] have "entity_id gr = k"
      "members gr = map mk (filter (\<lambda>r. object_id r = k) rs)"
      "max_similarity gr =
         round2 (fold max (map similarity (filter (\<lambda>r. object_id r = k) rs)) 0)"
      unfolding group_inv_def by blast+
    moreover have "set (map similarity (filter (\<lambda>r. object_id r = k) rs))
                     = similarity ` {r \<in> set rs. object_id r = k}"
      by auto
    ultimately show ?thesis by (simp only: fold_max_eq_Max)
  qed
  have m: "mset (concat (map (members \<circ> snd) (grouped_results mk rs))) = mset (map mk rs)"
    by (rule group_inv_members[OF inv])
  have ids: "mset (concat (map (map sel \<circ> members \<circ> snd) (grouped_results mk' rs)))
               = mset (map (sel \<circ> mk') rs)" for sel :: "'b \<Rightarrow> string" and mk'
  proof -
    have "concat (map (map sel \<circ> members \<circ> snd) (grouped_results mk' rs))
            = map sel (concat (map (members \<circ> snd) (grouped_results mk' rs)))"
      by (simp add: map_concat comp_def)
    then have "mset (concat (map (map sel \<circ> members \<circ> snd) (grouped_results mk' rs)))
            = image_mset sel (mset (concat (map (members \<circ> snd) (grouped_results mk' rs))))"
      by simp
    also have "\<dots> = image_mset sel (mset (map mk' rs))"
      by (simp only: group_inv_members[OF inv])
    finally show ?thesis by (simp add: multiset.map_comp comp_def)
  qed
  have io: "m_image_id \<circ> object_member = image_id" by (auto simp: object_member_def)
  have "(m_image_id :: face_image \<Rightarrow> string) \<circ> face_member = image_id"
    by (auto simp: face_member_def)
  with ids[of m_image_id object_member] ids[of m_image_id face_member] io
  have "mset (concat (map (map m_image_id \<circ> members \<circ> snd) (grouped_results object_member rs)))
       = mset (map image_id rs)"
    "mset (concat (map (map m_image_id \<circ> members \<circ> snd) (grouped_results face_member rs)))
       = mset (map image_id rs)"
    by simp_all
  with d ks v m show ?thesis by blast
qed

theorem grouping_correct_witness:
  "map (\<lambda>(k, gr). (k, map m_image_id (members gr), max_similarity gr))
     (grouped_results object_member
        [\<lparr>image_id = ''a'', object_id = ''X'', similarity = 876 / 1000, img_url = None,
          img_object_url = None, custom_data = []\<rparr>,
         \<lparr>image_id = ''b'', object_id = ''Y'', similarity = 1 / 2, img_url = None,
          img_object_url = None, custom_data = []\<rparr>,
         \<lparr>image_id = ''c'', object_id = ''X'', similarity = 7 / 10, img_url = None,
          img_object_url = None, custom_data = []\<rparr>])
   = [(''X'', [''a'', ''c''], 88 / 100), (''Y'', [''b''], 1 / 2)]"
  using grouping_correct[of object_member
        "[\<lparr>image_id = ''a'', object_id = ''X'', similarity = 876 / 1000, img_url = None,
          img_object_url = None, custom_data = []\<rparr>,
         \<lparr>image_id = ''b'', object_id = ''Y'', similarity = 1 / 2, img_url = None,
          img_object_url = None, custom_data = []\<rparr>,
         \<lparr>image_id = ''c'', object_id = ''X'', similarity = 7 / 10, img_url = None,
          img_object_url = None, custom_data = []\<rparr>]"]
  by (simp add: grouped_results_def group_step_def object_member_def round2_def
        round_half_even_def Let_def)

text \<open>
  The claim as stated fails where a similarity has more than two decimals: a single
  result of similarity 0.876 gives a group whose \<open>max_similarity\<close> is 0.88, which is not
  the maximum among the results of that id.
\<close>

theorem grouping_correct_counterexample:
  "map (max_similarity \<circ> snd)
     (grouped_results object_member
        [\<lparr>image_id = ''a'', object_id = ''X'', similarity = 876 / 1000, img_url = None,
          img_object_url = None, custom_data = []\<rparr>]) = [88 / 100]
   \<and> (88 / 100 :: rat) \<noteq> 876 / 1000"
  by (simp add: grouped_results_def group_step_def object_member_def round2_def
        round_half_even_def Let_def)

subsection \<open>Ranking and truncation\<close>





subsection \<open>Registration failures and persistence\<close>











end
